theory Spec2Isabelle
  imports Main "HOL-Library.Word"
begin

section \<open>The mutex and atomic-update layer of umutex.c\<close>

text \<open>
  A shallow embedding of \<^verbatim>\<open>icu4c/source/common/umutex.c\<close>: the static variables of the
  file are the fields of one record, every function of the file takes the state and
  returns the new one, and a call that does not return is a value \<open>Inl f\<close>: an
  assertion that fires, a platform lock called on something that is not a lock, or a wait
  for a mutex the calling thread holds itself.
  The preprocessor conditionals of the file are decided by a \<open>config\<close> value, so that
  every build of the file is covered by the same definitions.
\<close>

subsection \<open>Build configuration\<close>

text \<open>
  The macros the file tests. \<open>POSIX\<close> is what lines 22-32 leave defined, \<open>WIN32\<close> and
  \<open>ICU_USE_THREADS\<close> (meaning \<^verbatim>\<open>ICU_USE_THREADS == 1\<close>) are read as given,
  \<open>DEBUG_MSVC\<close> stands for the compiler's \<^verbatim>\<open>_DEBUG\<close>, and \<open>U_DEBUG\<close> says whether
  \<^verbatim>\<open>U_ASSERT\<close> is compiled in.
\<close>

record config =
  POSIX :: bool
  WIN32 :: bool
  ICU_USE_THREADS :: bool
  DEBUG_MSVC :: bool
  U_DEBUG :: bool

subsection \<open>Pointers, status codes and faults\<close>

text \<open>
  The \<^verbatim>\<open>UMTX\<close> variables a \<^verbatim>\<open>UMTX *\<close> can point to: the two statics, the local
  \<^verbatim>\<open>tMutex\<close> of \<^verbatim>\<open>umtx_init\<close>, and the variables owned by callers (by address).
  A \<^verbatim>\<open>UMTX *\<close> argument is a \<open>umtx_var option\<close>, \<open>None\<close> being the null pointer.
\<close>

datatype umtx_var = gGlobalMutex_var | gIncDecMutex_var | tMutex_var | caller_var nat

text \<open>
  The values of a \<^verbatim>\<open>UMTX\<close> (a \<^verbatim>\<open>void *\<close>): null, a block handed out by
  \<^verbatim>\<open>uprv_malloc\<close>, the address of a \<^verbatim>\<open>UMTX\<close> variable (what the build without threads
  stores), or a value of the embedder's own making.
\<close>

datatype ptr = NULL | Block nat | VarAddr umtx_var | Foreign nat

text \<open>
  Modelled from the spec: \<^verbatim>\<open>UErrorCode\<close> and \<^verbatim>\<open>U_FAILURE\<close> of unicode/utypes.h, which
  is not among the sources. The spec names the illegal-argument and the invalid-state
  conditions and a status that "already holds a failure code"; success and warnings are not
  failures.
\<close>

datatype UErrorCode =
    U_ZERO_ERROR
  | U_ILLEGAL_ARGUMENT_ERROR
  | U_INVALID_STATE_ERROR
  | U_OTHER_WARNING nat
  | U_OTHER_ERROR nat

fun U_FAILURE :: "UErrorCode \<Rightarrow> bool" where
  "U_FAILURE U_ZERO_ERROR = False"
| "U_FAILURE (U_OTHER_WARNING n) = False"
| "U_FAILURE U_ILLEGAL_ARGUMENT_ERROR = True"
| "U_FAILURE U_INVALID_STATE_ERROR = True"
| "U_FAILURE (U_OTHER_ERROR n) = True"

text \<open>
  The ways a call can fail to return: \<^verbatim>\<open>U_ASSERT\<close> fires; a platform lock primitive is
  handed a pointer that is not a live native lock object, which is undefined behaviour (the
  process dies); \<^verbatim>\<open>pthread_mutex_lock\<close> waits for a mutex that the calling thread
  holds itself.
\<close>

datatype fault = AssertionFailed | Crash | Deadlock

text \<open>
  Modelled from the spec: the macro \<^verbatim>\<open>U_ASSERT\<close> of uassert.h, which is not among the
  sources. A violated assertion is "fatal in debug builds" and compiled out of release
  builds (its argument is then not evaluated). \<open>U_ASSERT cfg e\<close> holds when execution
  continues past the assertion.
\<close>

definition U_ASSERT :: "config \<Rightarrow> bool \<Rightarrow> bool" where
  "U_ASSERT cfg e = (if U_DEBUG cfg then e else True)"

subsection \<open>The platform and the allocator\<close>

text \<open>
  The calls into the platform that return are recorded in the order they are made.
\<close>

datatype sys_call =
    EnterCriticalSection ptr
  | LeaveCriticalSection ptr
  | InitializeCriticalSection ptr
  | DeleteCriticalSection ptr
  | pthread_mutex_lock ptr
  | pthread_mutex_unlock ptr
  | pthread_mutex_init ptr
  | pthread_mutex_destroy ptr
  | InterlockedIncrement
  | InterlockedDecrement

text \<open>
  Modelled from the spec: the state of the allocator of cmemory.h, which is not among the
  sources. \<open>blocks\<close> are the live blocks, \<open>next_block\<close> the next block to hand out,
  \<open>alloc_script\<close> says which of the coming requests fail (\<open>False\<close>; once the script
  is used up every request succeeds), and \<open>gHeapInUse\<close> is what \<^verbatim>\<open>cmemory_inUse\<close>
  reports.
\<close>

record cmemory =
  blocks :: "nat set"
  next_block :: nat
  alloc_script :: "bool list"
  gHeapInUse :: bool

text \<open>
  Modelled from the spec: the callback types of unicode/uclean.h, which is not among the
  sources: four mutex callbacks and two atomic callbacks, "each taking an opaque context
  value". A callback reads and writes the embedder's own state \<open>'w\<close> and the object its
  pointer argument points to: an init callback maps context, \<^verbatim>\<open>*mutex\<close> and \<^verbatim>\<open>*status\<close>
  to their new values, a mutex callback maps context and \<^verbatim>\<open>*mutex\<close>, an atomic
  callback maps context and \<^verbatim>\<open>*p\<close> to the new \<^verbatim>\<open>*p\<close> and the returned value.
\<close>

type_synonym 'w UMtxInitFn = "'w \<Rightarrow> ptr \<Rightarrow> ptr \<Rightarrow> UErrorCode \<Rightarrow> 'w \<times> ptr \<times> UErrorCode"
type_synonym 'w UMtxFn = "'w \<Rightarrow> ptr \<Rightarrow> ptr \<Rightarrow> 'w \<times> ptr"
type_synonym 'w UMtxAtomicFn = "'w \<Rightarrow> ptr \<Rightarrow> 32 word \<Rightarrow> 'w \<times> 32 word \<times> 32 word"

subsection \<open>The state\<close>

text \<open>
  The statics of the file under their own names (lines 60-77 and 338-340), the stack slot of
  \<^verbatim>\<open>tMutex\<close>, the callers' \<^verbatim>\<open>UMTX\<close> variables, the allocator, how many times the
  calling thread holds each native lock object (\<open>held\<close>), the platform calls made so far
  and the embedder's state. A function pointer is an \<open>option\<close>, \<open>None\<close> being null.
\<close>

record 'w umutex =
  gGlobalMutex :: ptr
  gIncDecMutex :: ptr
  gRecursionCount :: "32 word"
  pMutexInitFn :: "'w UMtxInitFn option"
  pMutexDestroyFn :: "'w UMtxFn option"
  pMutexLockFn :: "'w UMtxFn option"
  pMutexUnlockFn :: "'w UMtxFn option"
  gMutexContext :: ptr
  pIncFn :: "'w UMtxAtomicFn option"
  pDecFn :: "'w UMtxAtomicFn option"
  gIncDecContext :: ptr
  tMutex :: ptr
  caller_mutexes :: "nat \<Rightarrow> ptr"
  heap :: cmemory
  held :: "nat \<Rightarrow> nat"
  calls :: "sys_call list"
  world :: 'w

text \<open>
  The state at program start: every static is zero, nothing is allocated, no lock is held.
\<close>

definition pristine :: "bool list \<Rightarrow> 'w \<Rightarrow> 'w umutex" where
  "pristine script w =
     \<lparr>gGlobalMutex = NULL, gIncDecMutex = NULL, gRecursionCount = 0,
      pMutexInitFn = None, pMutexDestroyFn = None, pMutexLockFn = None, pMutexUnlockFn = None,
      gMutexContext = NULL, pIncFn = None, pDecFn = None, gIncDecContext = NULL,
      tMutex = NULL, caller_mutexes = (\<lambda>a. NULL),
      heap = \<lparr>blocks = {}, next_block = 0, alloc_script = script, gHeapInUse = False\<rparr>,
      held = (\<lambda>b. 0), calls = [], world = w\<rparr>"

text \<open>Reading and writing through a \<^verbatim>\<open>UMTX *\<close>.\<close>

fun deref :: "'w umutex \<Rightarrow> umtx_var \<Rightarrow> ptr" where
  "deref s gGlobalMutex_var = gGlobalMutex s"
| "deref s gIncDecMutex_var = gIncDecMutex s"
| "deref s tMutex_var = tMutex s"
| "deref s (caller_var a) = caller_mutexes s a"

fun store :: "'w umutex \<Rightarrow> umtx_var \<Rightarrow> ptr \<Rightarrow> 'w umutex" where
  "store s gGlobalMutex_var v = s\<lparr>gGlobalMutex := v\<rparr>"
| "store s gIncDecMutex_var v = s\<lparr>gIncDecMutex := v\<rparr>"
| "store s tMutex_var v = s\<lparr>tMutex := v\<rparr>"
| "store s (caller_var a) v = s\<lparr>caller_mutexes := (caller_mutexes s)(a := v)\<rparr>"

text \<open>
  A call into the platform that returns: it is added to the record of calls. The calls
  that construct or destroy a lock object and the interlocked instructions are taken to
  return; the calls that take or release a lock are the primitives further down, which
  need not.
\<close>

definition sys :: "sys_call \<Rightarrow> 'w umutex \<Rightarrow> 'w umutex" where
  "sys c s = s\<lparr>calls := calls s @ [c]\<rparr>"

text \<open>
  Modelled from the spec: \<^verbatim>\<open>uprv_malloc\<close> of cmemory.h, which is not among the sources:
  "allocate(size) -> pointer|failure". A request fails when the script says so and hands
  out a new block otherwise; either way the allocator has been used.
\<close>

definition uprv_malloc :: "'w umutex \<Rightarrow> ptr \<times> 'w umutex" where
  "uprv_malloc s =
     (let h = heap s in
      case alloc_script h of
        False # rest \<Rightarrow> (NULL, s\<lparr>heap := h\<lparr>alloc_script := rest, gHeapInUse := True\<rparr>\<rparr>)
      | _ \<Rightarrow>
          (Block (next_block h),
           s\<lparr>heap := h\<lparr>blocks := insert (next_block h) (blocks h),
                          next_block := Suc (next_block h),
                          alloc_script := tl (alloc_script h),
                          gHeapInUse := True\<rparr>\<rparr>))"

text \<open>
  Modelled from the spec: \<^verbatim>\<open>uprv_free\<close> of cmemory.h, which is not among the sources:
  "release(pointer)". The block is no longer live; any other pointer is left alone.
\<close>

definition uprv_free :: "ptr \<Rightarrow> 'w umutex \<Rightarrow> 'w umutex" where
  "uprv_free p s =
     (case p of
        Block b \<Rightarrow> s\<lparr>heap := (heap s)\<lparr>blocks := blocks (heap s) - {b}\<rparr>\<rparr>
      | _ \<Rightarrow> s)"

text \<open>
  Modelled from the spec: \<^verbatim>\<open>cmemory_inUse\<close> of cmemory.h, which is not among the sources:
  the memory facility reports whether "any allocation/use has occurred".
\<close>

definition cmemory_inUse :: "'w umutex \<Rightarrow> bool" where
  "cmemory_inUse s = gHeapInUse (heap s)"

text \<open>
  Modelled from the spec: the lock primitives of the platform, "the built-in platform
  primitive" of pthread.h and windows.h, which are not among the sources. In the spec
  "all lock acquisitions are unbounded waits", and re-entrant locking "deadlocks on some
  platforms" and succeeds on others; the comment of lines 114-116 says which: "Recursion
  causes deadlocks on Unixes".

  A pointer is a native lock object when it is a live block; \<^verbatim>\<open>umtx_raw_init\<close> is the
  only function that allocates, and it initializes what it allocates. Called on anything
  else (null, a freed block, the address of a variable, a handle of the embedder's) a
  primitive has undefined behaviour and the process dies. \<^verbatim>\<open>pthread_mutex_lock\<close> on a
  mutex that the calling thread holds never returns (the mutexes are made with default
  attributes, lines 189-191); a critical section may be entered again by the thread that
  is in it. Waiting for another thread to release a lock is not visible in the state.
\<close>

definition native_mutex :: "'w umutex \<Rightarrow> ptr \<Rightarrow> nat option" where
  "native_mutex s p =
     (case p of
        Block b \<Rightarrow> if b \<in> blocks (heap s) then Some b else None
      | _ \<Rightarrow> None)"

definition sys_pthread_mutex_lock :: "ptr \<Rightarrow> 'w umutex \<Rightarrow> fault + 'w umutex" where
  "sys_pthread_mutex_lock p s =
     (case native_mutex s p of
        None \<Rightarrow> Inl Crash
      | Some b \<Rightarrow>
          if held s b \<noteq> 0 then Inl Deadlock
          else Inr (sys (pthread_mutex_lock p) (s\<lparr>held := (held s)(b := 1)\<rparr>)))"

definition sys_pthread_mutex_unlock :: "ptr \<Rightarrow> 'w umutex \<Rightarrow> fault + 'w umutex" where
  "sys_pthread_mutex_unlock p s =
     (case native_mutex s p of
        None \<Rightarrow> Inl Crash
      | Some b \<Rightarrow> Inr (sys (pthread_mutex_unlock p) (s\<lparr>held := (held s)(b := 0)\<rparr>)))"

definition sys_EnterCriticalSection :: "ptr \<Rightarrow> 'w umutex \<Rightarrow> fault + 'w umutex" where
  "sys_EnterCriticalSection p s =
     (case native_mutex s p of
        None \<Rightarrow> Inl Crash
      | Some b \<Rightarrow>
          Inr (sys (EnterCriticalSection p) (s\<lparr>held := (held s)(b := Suc (held s b))\<rparr>)))"

definition sys_LeaveCriticalSection :: "ptr \<Rightarrow> 'w umutex \<Rightarrow> fault + 'w umutex" where
  "sys_LeaveCriticalSection p s =
     (case native_mutex s p of
        None \<Rightarrow> Inl Crash
      | Some b \<Rightarrow>
          Inr (sys (LeaveCriticalSection p) (s\<lparr>held := (held s)(b := held s b - 1)\<rparr>)))"

text \<open>Calling a registered mutex callback: \<^verbatim>\<open>(*f)(gMutexContext, mutex)\<close>.\<close>

definition call_mutex_fn :: "'w UMtxFn \<Rightarrow> 'w umutex \<Rightarrow> umtx_var \<Rightarrow> 'w umutex" where
  "call_mutex_fn f s mutex =
     (case f (world s) (gMutexContext s) (deref s mutex) of
        (w', v') \<Rightarrow> store (s\<lparr>world := w'\<rparr>) mutex v')"

subsection \<open>umtx_unlock (lines 126-158)\<close>

definition umtx_unlock :: "config \<Rightarrow> 'w umutex \<Rightarrow> umtx_var option \<Rightarrow> fault + 'w umutex" where
  "umtx_unlock cfg s mutex0 =
     (let mutex = (case mutex0 of None \<Rightarrow> gGlobalMutex_var | Some m \<Rightarrow> m) in
      if deref s mutex = NULL then
        (if \<not> U_ASSERT cfg False then Inl AssertionFailed else Inr s)
      else
        (case (if WIN32 cfg \<and> DEBUG_MSVC cfg \<and> mutex = gGlobalMutex_var then
                 (let s1 = s\<lparr>gRecursionCount := gRecursionCount s - 1\<rparr> in
                  if \<not> U_ASSERT cfg (gRecursionCount s1 = 0) then Inl AssertionFailed
                  else Inr s1)
               else Inr s) of
           Inl e \<Rightarrow> Inl e
         | Inr s2 \<Rightarrow>
             (case pMutexUnlockFn s2 of
                Some f \<Rightarrow> Inr (call_mutex_fn f s2 mutex)
              | None \<Rightarrow>
                  if ICU_USE_THREADS cfg then
                    (if WIN32 cfg then sys_LeaveCriticalSection (deref s2 mutex) s2
                     else if POSIX cfg then sys_pthread_mutex_unlock (deref s2 mutex) s2
                     else Inr s2)
                  else Inr s2)))"

subsection \<open>umtx_raw_init (lines 165-202)\<close>

text \<open>
  The callback receives \<^verbatim>\<open>mutex\<close> and a local status that starts as
  \<^verbatim>\<open>U_ZERO_ERROR\<close>; whatever it stored through \<^verbatim>\<open>mutex\<close> stays there on both ways out.
  Without a callback the handle is written only after a successful allocation, or, in the
  build without threads, set to its own address.
\<close>

definition umtx_raw_init :: "config \<Rightarrow> 'w umutex \<Rightarrow> umtx_var \<Rightarrow> 'w umutex" where
  "umtx_raw_init cfg s mutex =
     (case pMutexInitFn s of
        Some f \<Rightarrow>
          (case f (world s) (gMutexContext s) (deref s mutex) U_ZERO_ERROR of
             (w', v', status) \<Rightarrow>
               (let s1 = store (s\<lparr>world := w'\<rparr>) mutex v' in
                if U_FAILURE status then s1 else s1))
      | None \<Rightarrow>
          if ICU_USE_THREADS cfg then
            (if WIN32 cfg then
               (case uprv_malloc s of
                  (cs, s1) \<Rightarrow>
                    if cs = NULL then s1
                    else store (sys (InitializeCriticalSection cs) s1) mutex cs)
             else if POSIX cfg then
               (case uprv_malloc s of
                  (m, s1) \<Rightarrow>
                    if m = NULL then s1
                    else store (sys (pthread_mutex_init m) s1) mutex m)
             else s)
          else store s mutex (VarAddr mutex))"

subsection \<open>umtx_destroy (lines 264-295)\<close>

function umtx_destroy :: "config \<Rightarrow> 'w umutex \<Rightarrow> umtx_var option \<Rightarrow> 'w umutex" where
  "umtx_destroy cfg s mutex0 =
     (let mutex = (case mutex0 of None \<Rightarrow> gGlobalMutex_var | Some m \<Rightarrow> m) in
      if deref s mutex = NULL then s
      else
        (let s1 = (case pMutexDestroyFn s of
                     Some f \<Rightarrow> call_mutex_fn f s mutex
                   | None \<Rightarrow>
                       if ICU_USE_THREADS cfg then
                         (if WIN32 cfg then
                            uprv_free (deref s mutex)
                              (sys (DeleteCriticalSection (deref s mutex)) s)
                          else if POSIX cfg then
                            uprv_free (deref s mutex)
                              (sys (pthread_mutex_destroy (deref s mutex)) s)
                          else s)
                       else s);
             s2 = store s1 mutex NULL
         in if POSIX cfg \<and> mutex = gGlobalMutex_var
            then umtx_destroy cfg s2 (Some gIncDecMutex_var)
            else s2))"
  by pat_completeness auto
termination
  by (relation "measure (\<lambda>(cfg, s, mutex0). if mutex0 = Some gIncDecMutex_var then 0 else 1)")
     (auto split: option.splits)

subsection \<open>umtx_lock (lines 84-119) and umtx_init (lines 206-254)\<close>

text \<open>
  The two functions call each other: \<^verbatim>\<open>umtx_lock\<close> initializes a null handle in a release
  build, and \<^verbatim>\<open>umtx_init\<close> of a handle other than the global one takes the global mutex.

  \<open>others\<close> is what the other threads do to the state while this thread is outside the
  global mutex, between the two critical sections of \<^verbatim>\<open>umtx_init\<close>; they cannot reach
  this thread's \<^verbatim>\<open>tMutex\<close>. A run with no other thread has \<open>others = id\<close>.
\<close>

function
  umtx_lock :: "config \<Rightarrow> ('w umutex \<Rightarrow> 'w umutex) \<Rightarrow> 'w umutex \<Rightarrow> umtx_var option
                 \<Rightarrow> fault + 'w umutex" and
  umtx_init :: "config \<Rightarrow> ('w umutex \<Rightarrow> 'w umutex) \<Rightarrow> 'w umutex \<Rightarrow> umtx_var option
                 \<Rightarrow> fault + 'w umutex"
where
  "umtx_lock cfg others s mutex0 =
     (let mutex = (case mutex0 of None \<Rightarrow> gGlobalMutex_var | Some m \<Rightarrow> m) in
      case (if deref s mutex = NULL then
              (if \<not> U_ASSERT cfg False then Inl AssertionFailed
               else umtx_init cfg others s (Some mutex))
            else Inr s) of
        Inl e \<Rightarrow> Inl e
      | Inr s1 \<Rightarrow>
          (case (case pMutexLockFn s1 of
                   Some f \<Rightarrow> Inr (call_mutex_fn f s1 mutex)
                 | None \<Rightarrow>
                     if ICU_USE_THREADS cfg then
                       (if WIN32 cfg then sys_EnterCriticalSection (deref s1 mutex) s1
                        else if POSIX cfg then sys_pthread_mutex_lock (deref s1 mutex) s1
                        else Inr s1)
                     else Inr s1) of
             Inl e \<Rightarrow> Inl e
           | Inr s2 \<Rightarrow>
               if WIN32 cfg \<and> DEBUG_MSVC cfg \<and> mutex = gGlobalMutex_var then
                 (let s3 = s2\<lparr>gRecursionCount := gRecursionCount s2 + 1\<rparr> in
                  if \<not> U_ASSERT cfg (gRecursionCount s3 = 1) then Inl AssertionFailed
                  else Inr s3)
               else Inr s2))"
| "umtx_init cfg others s mutex0 =
     (let mutex = (case mutex0 of None \<Rightarrow> gGlobalMutex_var | Some m \<Rightarrow> m) in
      if mutex = gGlobalMutex_var then
        (if deref s mutex \<noteq> NULL then Inr s
         else
           (let s1 = umtx_raw_init cfg s mutex;
                s2 = s1\<lparr>gRecursionCount := 0\<rparr>
            in Inr (if POSIX cfg then umtx_raw_init cfg s2 gIncDecMutex_var else s2)))
      else
        (let s0 = store s tMutex_var NULL in
         case umtx_lock cfg others s0 None of
           Inl e \<Rightarrow> Inl e
         | Inr s1 \<Rightarrow>
             (let isInitialized = (deref s1 mutex \<noteq> NULL) in
              case umtx_unlock cfg s1 None of
                Inl e \<Rightarrow> Inl e
              | Inr s2 \<Rightarrow>
                  if isInitialized then Inr s2
                  else
                    (let s3 = umtx_raw_init cfg s2 tMutex_var;
                         s4 = (others s3)\<lparr>tMutex := tMutex s3\<rparr>
                     in case umtx_lock cfg others s4 None of
                          Inl e \<Rightarrow> Inl e
                        | Inr s5 \<Rightarrow>
                            (let s6 = (if deref s5 mutex = NULL
                                       then store (store s5 mutex (tMutex s5)) tMutex_var NULL
                                       else s5)
                             in case umtx_unlock cfg s6 None of
                                  Inl e \<Rightarrow> Inl e
                                | Inr s7 \<Rightarrow>
                                    if tMutex s7 \<noteq> NULL
                                    then Inr (umtx_destroy cfg s7 (Some tMutex_var))
                                    else Inr s7)))))"
  by pat_completeness auto
termination
  by (relation "measure (\<lambda>x. case x of
          Inl (cfg, others, s, mutex0) \<Rightarrow>
            (if mutex0 = None \<or> mutex0 = Some gGlobalMutex_var then 1 else 3)
        | Inr (cfg, others, s, mutex0) \<Rightarrow>
            (if mutex0 = None \<or> mutex0 = Some gGlobalMutex_var then 0 else 2))")
     (auto split: option.splits)

declare umtx_lock.simps [simp del] umtx_init.simps [simp del] umtx_destroy.simps [simp del]

text \<open>
  The parts of \<^verbatim>\<open>umtx_lock\<close> and of the second branch of \<^verbatim>\<open>umtx_init\<close> under names
  of their own: the acquisition (lines 100-118), the first critical section with its early
  return (lines 231-239) and the second one with the clean-up (lines 243-252). The lemmas
  \<open>umtx_lock_Some\<close> and \<open>umtx_init_caller\<close> below show that the functions are made of them.
\<close>

definition umtx_lock_acquire :: "config \<Rightarrow> 'w umutex \<Rightarrow> umtx_var \<Rightarrow> fault + 'w umutex" where
  "umtx_lock_acquire cfg s1 mutex =
     (case (case pMutexLockFn s1 of
              Some f \<Rightarrow> Inr (call_mutex_fn f s1 mutex)
            | None \<Rightarrow>
                if ICU_USE_THREADS cfg then
                  (if WIN32 cfg then sys_EnterCriticalSection (deref s1 mutex) s1
                   else if POSIX cfg then sys_pthread_mutex_lock (deref s1 mutex) s1
                   else Inr s1)
                else Inr s1) of
        Inl e \<Rightarrow> Inl e
      | Inr s2 \<Rightarrow>
          if WIN32 cfg \<and> DEBUG_MSVC cfg \<and> mutex = gGlobalMutex_var then
            (let s3 = s2\<lparr>gRecursionCount := gRecursionCount s2 + 1\<rparr> in
             if \<not> U_ASSERT cfg (gRecursionCount s3 = 1) then Inl AssertionFailed
             else Inr s3)
          else Inr s2)"

definition umtx_init_check ::
  "config \<Rightarrow> ('w umutex \<Rightarrow> 'w umutex) \<Rightarrow> 'w umutex \<Rightarrow> umtx_var \<Rightarrow> fault + bool \<times> 'w umutex" where
  "umtx_init_check cfg others s mutex =
     (case umtx_lock cfg others (store s tMutex_var NULL) None of
        Inl e \<Rightarrow> Inl e
      | Inr s1 \<Rightarrow>
          (case umtx_unlock cfg s1 None of
             Inl e \<Rightarrow> Inl e
           | Inr s2 \<Rightarrow> Inr (deref s1 mutex \<noteq> NULL, s2)))"

definition umtx_init_install ::
  "config \<Rightarrow> ('w umutex \<Rightarrow> 'w umutex) \<Rightarrow> 'w umutex \<Rightarrow> umtx_var \<Rightarrow> fault + 'w umutex" where
  "umtx_init_install cfg others s4 mutex =
     (case umtx_lock cfg others s4 None of
        Inl e \<Rightarrow> Inl e
      | Inr s5 \<Rightarrow>
          (let s6 = (if deref s5 mutex = NULL
                     then store (store s5 mutex (tMutex s5)) tMutex_var NULL
                     else s5)
           in case umtx_unlock cfg s6 None of
                Inl e \<Rightarrow> Inl e
              | Inr s7 \<Rightarrow>
                  if tMutex s7 \<noteq> NULL
                  then Inr (umtx_destroy cfg s7 (Some tMutex_var))
                  else Inr s7))"

subsection \<open>u_setMutexFunctions (lines 299-325)\<close>

definition u_setMutexFunctions ::
  "'w umutex \<Rightarrow> ptr \<Rightarrow> 'w UMtxInitFn option \<Rightarrow> 'w UMtxFn option \<Rightarrow> 'w UMtxFn option \<Rightarrow>
   'w UMtxFn option \<Rightarrow> UErrorCode \<Rightarrow> 'w umutex \<times> UErrorCode" where
  "u_setMutexFunctions s ctx i d l u status =
     (if U_FAILURE status then (s, status)
      else if i = None \<or> d = None \<or> l = None \<or> u = None then (s, U_ILLEGAL_ARGUMENT_ERROR)
      else if cmemory_inUse s then (s, U_INVALID_STATE_ERROR)
      else (s\<lparr>pMutexInitFn := i, pMutexDestroyFn := d, pMutexLockFn := l,
               pMutexUnlockFn := u, gMutexContext := ctx\<rparr>, status))"

subsection \<open>umtx_atomic_inc and umtx_atomic_dec (lines 343-383)\<close>

text \<open>
  The integer \<^verbatim>\<open>*p\<close> goes in and comes out with the returned value. An
  \<^verbatim>\<open>int32_t\<close> is a 32-bit word, so that adding one wraps around. The POSIX path calls
  \<^verbatim>\<open>pthread_mutex_lock\<close> on \<open>gIncDecMutex\<close> as it is, with no check for null.
\<close>

definition umtx_atomic_inc ::
  "config \<Rightarrow> 'w umutex \<Rightarrow> 32 word \<Rightarrow> fault + 'w umutex \<times> 32 word \<times> 32 word" where
  "umtx_atomic_inc cfg s p =
     (case pIncFn s of
        Some f \<Rightarrow>
          (case f (world s) (gIncDecContext s) p of
             (w', p', retVal) \<Rightarrow> Inr (s\<lparr>world := w'\<rparr>, p', retVal))
      | None \<Rightarrow>
          if WIN32 cfg \<and> ICU_USE_THREADS cfg then
            Inr (sys InterlockedIncrement s, p + 1, p + 1)
          else if POSIX cfg \<and> ICU_USE_THREADS cfg then
            (let m = gIncDecMutex s in
             case sys_pthread_mutex_lock m s of
               Inl e \<Rightarrow> Inl e
             | Inr s1 \<Rightarrow>
                 (let p' = p + 1;
                      retVal = p'
                  in case sys_pthread_mutex_unlock m s1 of
                       Inl e \<Rightarrow> Inl e
                     | Inr s2 \<Rightarrow> Inr (s2, p', retVal)))
          else Inr (s, p + 1, p + 1))"

definition umtx_atomic_dec ::
  "config \<Rightarrow> 'w umutex \<Rightarrow> 32 word \<Rightarrow> fault + 'w umutex \<times> 32 word \<times> 32 word" where
  "umtx_atomic_dec cfg s p =
     (case pDecFn s of
        Some f \<Rightarrow>
          (case f (world s) (gIncDecContext s) p of
             (w', p', retVal) \<Rightarrow> Inr (s\<lparr>world := w'\<rparr>, p', retVal))
      | None \<Rightarrow>
          if WIN32 cfg \<and> ICU_USE_THREADS cfg then
            Inr (sys InterlockedDecrement s, p - 1, p - 1)
          else if POSIX cfg \<and> ICU_USE_THREADS cfg then
            (let m = gIncDecMutex s in
             case sys_pthread_mutex_lock m s of
               Inl e \<Rightarrow> Inl e
             | Inr s1 \<Rightarrow>
                 (let p' = p - 1;
                      retVal = p'
                  in case sys_pthread_mutex_unlock m s1 of
                       Inl e \<Rightarrow> Inl e
                     | Inr s2 \<Rightarrow> Inr (s2, p', retVal)))
          else Inr (s, p - 1, p - 1))"

subsection \<open>u_setAtomicIncDecFunctions (lines 391-417)\<close>

text \<open>
  The context argument is not stored (lines 409-410 assign the two function pointers only).
  The four sanity checks are arguments of \<^verbatim>\<open>U_ASSERT\<close>, so a release build makes none of
  the calls.
\<close>

definition u_setAtomicIncDecFunctions ::
  "config \<Rightarrow> 'w umutex \<Rightarrow> ptr \<Rightarrow> 'w UMtxAtomicFn option \<Rightarrow> 'w UMtxAtomicFn option \<Rightarrow>
   UErrorCode \<Rightarrow> fault + 'w umutex \<times> UErrorCode" where
  "u_setAtomicIncDecFunctions cfg s ctx ip dp status =
     (if U_FAILURE status then Inr (s, status)
      else if ip = None \<or> dp = None then Inr (s, U_ILLEGAL_ARGUMENT_ERROR)
      else if cmemory_inUse s then Inr (s, U_INVALID_STATE_ERROR)
      else
        (let s1 = s\<lparr>pIncFn := ip, pDecFn := dp\<rparr>;
             testInt = 0
         in if U_DEBUG cfg then
              (case umtx_atomic_inc cfg s1 testInt of
                 Inl e \<Rightarrow> Inl e
               | Inr (s2, testInt1, r1) \<Rightarrow>
                   if r1 \<noteq> 1 then Inl AssertionFailed
                   else if testInt1 \<noteq> 1 then Inl AssertionFailed
                   else
                     (case umtx_atomic_dec cfg s2 testInt1 of
                        Inl e \<Rightarrow> Inl e
                      | Inr (s3, testInt2, r2) \<Rightarrow>
                          if r2 \<noteq> 0 then Inl AssertionFailed
                          else if testInt2 \<noteq> 0 then Inl AssertionFailed
                          else Inr (s3, status)))
            else Inr (s1, status)))"

subsection \<open>umtx_cleanup (lines 426-438)\<close>

definition umtx_cleanup :: "config \<Rightarrow> 'w umutex \<Rightarrow> 'w umutex \<times> bool" where
  "umtx_cleanup cfg s =
     (let s1 = umtx_destroy cfg s None
      in (s1\<lparr>pMutexInitFn := None, pMutexDestroyFn := None, pMutexLockFn := None,
              pMutexUnlockFn := None, gMutexContext := NULL, pIncFn := None, pDecFn := None\<rparr>,
          True))"

subsection \<open>Conditions on the global mutex and on the guard mutex\<close>


definition settled :: "config \<Rightarrow> 'w umutex \<Rightarrow> bool" where
  "settled cfg s =
     (pMutexInitFn s = None \<and> pMutexDestroyFn s = None \<and> pMutexLockFn s = None \<and>
      pMutexUnlockFn s = None \<and> gRecursionCount s = 0 \<and>
      (if ICU_USE_THREADS cfg \<and> (WIN32 cfg \<or> POSIX cfg)
       then (case native_mutex s (gGlobalMutex s) of Some g \<Rightarrow> held s g = 0 | None \<Rightarrow> False)
       else gGlobalMutex s \<noteq> NULL))"

definition backed ::
  "'w UMtxInitFn \<Rightarrow> 'w UMtxFn \<Rightarrow> 'w UMtxFn \<Rightarrow> 'w UMtxFn \<Rightarrow> 'w umutex \<Rightarrow> bool" where
  "backed i d l u s =
     (pMutexInitFn s = Some i \<and> pMutexDestroyFn s = Some d \<and> pMutexLockFn s = Some l \<and>
      pMutexUnlockFn s = Some u \<and> gRecursionCount s = 0 \<and> gGlobalMutex s \<noteq> NULL)"


definition guard_live :: "config \<Rightarrow> 'w umutex \<Rightarrow> bool" where
  "guard_live cfg s =
     (if POSIX cfg \<and> ICU_USE_THREADS cfg \<and> \<not> WIN32 cfg
      then (case native_mutex s (gIncDecMutex s) of Some b \<Rightarrow> held s b = 0 | None \<Rightarrow> False)
      else True)"

subsection \<open>Builds and states used in the examples\<close>

definition posix_release :: config where
  "posix_release = \<lparr>POSIX = True, WIN32 = False, ICU_USE_THREADS = True,
                     DEBUG_MSVC = False, U_DEBUG = False\<rparr>"

definition posix_debug :: config where
  "posix_debug = \<lparr>POSIX = True, WIN32 = False, ICU_USE_THREADS = True,
                   DEBUG_MSVC = False, U_DEBUG = True\<rparr>"



text \<open>The handle of caller variable \<open>k\<close> after a call that may have stopped at an assertion.\<close>

definition handle_after :: "fault + 'w umutex \<Rightarrow> nat \<Rightarrow> ptr option" where
  "handle_after r k = (case r of Inl e \<Rightarrow> None | Inr s \<Rightarrow> Some (caller_mutexes s k))"

text \<open>
  Callbacks of an embedder whose state is a counter: a backend that hands out numbered
  objects, lock, unlock and destroy callbacks that leave the handle alone and add 10, 100
  and 1000 to the counter, atomic callbacks that keep the contract, atomic callbacks that
  return the new value only on the two steps the sanity check of
  \<^verbatim>\<open>u_setAtomicIncDecFunctions\<close> makes, an init callback that reports failure without
  touching the handle, and one that stores a handle and then reports failure.
\<close>

definition cb_init :: "nat UMtxInitFn" where
  "cb_init w ctx v status = (Suc w, Foreign w, status)"

definition cb_mutex :: "nat UMtxFn" where
  "cb_mutex w ctx v = (w, v)"




definition cb_inc :: "nat UMtxAtomicFn" where
  "cb_inc w ctx p = (w, p + 1, p + 1)"

definition cb_dec :: "nat UMtxAtomicFn" where
  "cb_dec w ctx p = (w, p - 1, p - 1)"

definition stale_inc :: "nat UMtxAtomicFn" where
  "stale_inc w ctx p = (w, p + 1, if p = 0 then 1 else p)"

definition stale_dec :: "nat UMtxAtomicFn" where
  "stale_dec w ctx p = (w, p - 1, if p = 1 then 0 else p)"

definition failing_init :: "nat UMtxInitFn" where
  "failing_init w ctx v status = (w, v, U_OTHER_ERROR 7)"

definition half_init :: "nat UMtxInitFn" where
  "half_init w ctx v status = (w, Foreign 9, U_OTHER_ERROR 7)"

text \<open>
  States of a POSIX build with threads: \<open>busy\<close> after one allocation; \<open>ready\<close> after
  \<^verbatim>\<open>umtx_init(NULL)\<close>; \<open>half\<close> after the same call when the first allocation fails
  and \<open>lame\<close> when the second one does; \<open>starved\<close>, which is \<open>ready\<close> with an
  allocator that refuses the next request; \<open>holding\<close>, which is \<open>ready\<close> after
  \<^verbatim>\<open>umtx_lock(NULL)\<close>; \<open>owned\<close> after \<^verbatim>\<open>umtx_init\<close> of caller variable 0 on
  \<open>ready\<close>, \<open>beaten\<close> after the same call when another thread got there first, and
  \<open>cleaned\<close> after \<^verbatim>\<open>umtx_cleanup\<close> on \<open>owned\<close>; \<open>stale\<close>, \<open>refusing\<close>,
  \<open>halfway\<close> and \<open>registered\<close> with the callbacks above registered, the last one
  after \<^verbatim>\<open>umtx_init(NULL)\<close>; and \<open>rival\<close>, another thread that installs a handle of
  its own into caller variable 0.
\<close>

definition busy :: "nat umutex" where
  "busy = snd (uprv_malloc (pristine [] 0))"

definition ready :: "nat umutex" where
  "ready = (pristine [] 0)
     \<lparr>gGlobalMutex := Block 0, gIncDecMutex := Block 1,
      heap := \<lparr>blocks = {0, 1}, next_block = 2, alloc_script = [], gHeapInUse = True\<rparr>,
      calls := [pthread_mutex_init (Block 0), pthread_mutex_init (Block 1)]\<rparr>"

definition half :: "nat umutex" where
  "half = (pristine [] 0)
     \<lparr>gIncDecMutex := Block 0,
      heap := \<lparr>blocks = {0}, next_block = 1, alloc_script = [], gHeapInUse = True\<rparr>,
      calls := [pthread_mutex_init (Block 0)]\<rparr>"

definition stale :: "nat umutex" where
  "stale = (pristine [] 0)\<lparr>pIncFn := Some stale_inc, pDecFn := Some stale_dec\<rparr>"

definition refusing :: "nat umutex" where
  "refusing = fst (u_setMutexFunctions (pristine [] 0) (Foreign 1) (Some failing_init)
                     (Some cb_mutex) (Some cb_mutex) (Some cb_mutex) U_ZERO_ERROR)"

definition halfway :: "nat umutex" where
  "halfway = fst (u_setMutexFunctions (pristine [] 0) (Foreign 1) (Some half_init) (Some cb_mutex)
                    (Some cb_mutex) (Some cb_mutex) U_ZERO_ERROR)"




definition holding :: "nat umutex" where
  "holding = ready\<lparr>held := (\<lambda>b. 0)(0 := 1),
                   calls := calls ready @ [pthread_mutex_lock (Block 0)]\<rparr>"

definition owned :: "nat umutex" where
  "owned = ready
     \<lparr>caller_mutexes := (\<lambda>a. NULL)(0 := Block 2),
      heap := \<lparr>blocks = {0, 1, 2}, next_block = 3, alloc_script = [], gHeapInUse = True\<rparr>,
      calls := calls ready @
        [pthread_mutex_lock (Block 0), pthread_mutex_unlock (Block 0),
         pthread_mutex_init (Block 2),
         pthread_mutex_lock (Block 0), pthread_mutex_unlock (Block 0)]\<rparr>"




section \<open>Lemmas about the embedding\<close>

subsection \<open>Reading and writing\<close>

lemma deref_store: "deref (store s m v) m' = (if m' = m then v else deref s m')"
  by (cases m; cases m') auto

lemma store_fields [simp]:
  "gRecursionCount (store s m v) = gRecursionCount s"
  "pMutexInitFn (store s m v) = pMutexInitFn s"
  "pMutexDestroyFn (store s m v) = pMutexDestroyFn s"
  "pMutexLockFn (store s m v) = pMutexLockFn s"
  "pMutexUnlockFn (store s m v) = pMutexUnlockFn s"
  "gMutexContext (store s m v) = gMutexContext s"
  "pIncFn (store s m v) = pIncFn s"
  "pDecFn (store s m v) = pDecFn s"
  "gIncDecContext (store s m v) = gIncDecContext s"
  "heap (store s m v) = heap s"
  "held (store s m v) = held s"
  "calls (store s m v) = calls s"
  "world (store s m v) = world s"
  by (cases m; simp)+

lemma sys_fields [simp]:
  "deref (sys c s) m = deref s m"
  "gRecursionCount (sys c s) = gRecursionCount s"
  "pMutexInitFn (sys c s) = pMutexInitFn s"
  "pMutexDestroyFn (sys c s) = pMutexDestroyFn s"
  "pMutexLockFn (sys c s) = pMutexLockFn s"
  "pMutexUnlockFn (sys c s) = pMutexUnlockFn s"
  "gMutexContext (sys c s) = gMutexContext s"
  "pIncFn (sys c s) = pIncFn s"
  "pDecFn (sys c s) = pDecFn s"
  "gIncDecContext (sys c s) = gIncDecContext s"
  "heap (sys c s) = heap s"
  "held (sys c s) = held s"
  "calls (sys c s) = calls s @ [c]"
  "world (sys c s) = world s"
  by (cases m; simp add: sys_def)+

lemma deref_upd [simp]:
  "deref (s\<lparr>world := w\<rparr>) m = deref s m"
  "deref (s\<lparr>heap := h\<rparr>) m = deref s m"
  "deref (s\<lparr>calls := cs\<rparr>) m = deref s m"
  "deref (s\<lparr>held := hl\<rparr>) m = deref s m"
  "deref (s\<lparr>gRecursionCount := n\<rparr>) m = deref s m"
  by (cases m; simp)+

lemma uprv_malloc_fields [simp]:
  "deref (snd (uprv_malloc s)) m = deref s m"
  "gRecursionCount (snd (uprv_malloc s)) = gRecursionCount s"
  "pMutexInitFn (snd (uprv_malloc s)) = pMutexInitFn s"
  "pMutexDestroyFn (snd (uprv_malloc s)) = pMutexDestroyFn s"
  "pMutexLockFn (snd (uprv_malloc s)) = pMutexLockFn s"
  "pMutexUnlockFn (snd (uprv_malloc s)) = pMutexUnlockFn s"
  "gMutexContext (snd (uprv_malloc s)) = gMutexContext s"
  "pIncFn (snd (uprv_malloc s)) = pIncFn s"
  "pDecFn (snd (uprv_malloc s)) = pDecFn s"
  "gIncDecContext (snd (uprv_malloc s)) = gIncDecContext s"
  "calls (snd (uprv_malloc s)) = calls s"
  "held (snd (uprv_malloc s)) = held s"
  "world (snd (uprv_malloc s)) = world s"
  by (simp_all add: uprv_malloc_def Let_def split: list.splits bool.splits)

lemma uprv_free_fields [simp]:
  "deref (uprv_free p s) m = deref s m"
  "gRecursionCount (uprv_free p s) = gRecursionCount s"
  "pMutexInitFn (uprv_free p s) = pMutexInitFn s"
  "pMutexDestroyFn (uprv_free p s) = pMutexDestroyFn s"
  "pMutexLockFn (uprv_free p s) = pMutexLockFn s"
  "pMutexUnlockFn (uprv_free p s) = pMutexUnlockFn s"
  "gMutexContext (uprv_free p s) = gMutexContext s"
  "pIncFn (uprv_free p s) = pIncFn s"
  "pDecFn (uprv_free p s) = pDecFn s"
  "gIncDecContext (uprv_free p s) = gIncDecContext s"
  "calls (uprv_free p s) = calls s"
  "held (uprv_free p s) = held s"
  "world (uprv_free p s) = world s"
  by (simp_all add: uprv_free_def split: ptr.splits)

lemma call_mutex_fn_fields [simp]:
  "gRecursionCount (call_mutex_fn f s m) = gRecursionCount s"
  "pMutexInitFn (call_mutex_fn f s m) = pMutexInitFn s"
  "pMutexDestroyFn (call_mutex_fn f s m) = pMutexDestroyFn s"
  "pMutexLockFn (call_mutex_fn f s m) = pMutexLockFn s"
  "pMutexUnlockFn (call_mutex_fn f s m) = pMutexUnlockFn s"
  "gMutexContext (call_mutex_fn f s m) = gMutexContext s"
  "pIncFn (call_mutex_fn f s m) = pIncFn s"
  "pDecFn (call_mutex_fn f s m) = pDecFn s"
  "gIncDecContext (call_mutex_fn f s m) = gIncDecContext s"
  "heap (call_mutex_fn f s m) = heap s"
  "calls (call_mutex_fn f s m) = calls s"
  "held (call_mutex_fn f s m) = held s"
  by (simp_all add: call_mutex_fn_def split: prod.splits)

lemma call_mutex_fn_other: "m' \<noteq> m \<Longrightarrow> deref (call_mutex_fn f s m) m' = deref s m'"
  by (simp add: call_mutex_fn_def deref_store split: prod.splits)

lemma umtx_raw_init_other: "m' \<noteq> m \<Longrightarrow> deref (umtx_raw_init cfg s m) m' = deref s m'"
  by (auto simp add: umtx_raw_init_def deref_store Let_def case_prod_beta split: option.splits)

lemma umtx_raw_init_fields [simp]:
  "gRecursionCount (umtx_raw_init cfg s m) = gRecursionCount s"
  "pMutexInitFn (umtx_raw_init cfg s m) = pMutexInitFn s"
  "pMutexDestroyFn (umtx_raw_init cfg s m) = pMutexDestroyFn s"
  "pMutexLockFn (umtx_raw_init cfg s m) = pMutexLockFn s"
  "pMutexUnlockFn (umtx_raw_init cfg s m) = pMutexUnlockFn s"
  "gMutexContext (umtx_raw_init cfg s m) = gMutexContext s"
  "pIncFn (umtx_raw_init cfg s m) = pIncFn s"
  "pDecFn (umtx_raw_init cfg s m) = pDecFn s"
  "gIncDecContext (umtx_raw_init cfg s m) = gIncDecContext s"
  by (auto simp add: umtx_raw_init_def Let_def case_prod_beta split: option.splits)

lemma umtx_raw_init_native:
  "pMutexInitFn s = None \<Longrightarrow> ICU_USE_THREADS cfg \<Longrightarrow> WIN32 cfg \<or> POSIX cfg \<Longrightarrow>
   fst (uprv_malloc s) = Block b \<Longrightarrow>
   deref (umtx_raw_init cfg s m) m = Block b \<and> b \<in> blocks (heap (umtx_raw_init cfg s m))"
  by (auto simp add: umtx_raw_init_def case_prod_beta deref_store uprv_malloc_def Let_def
           split: list.splits bool.splits)

subsection \<open>The recursive functions, one call at a time\<close>

lemma umtx_init_None:
  "umtx_init cfg others s None =
     (if gGlobalMutex s \<noteq> NULL then Inr s
      else Inr (let s2 = (umtx_raw_init cfg s gGlobalMutex_var)\<lparr>gRecursionCount := 0\<rparr>
                in if POSIX cfg then umtx_raw_init cfg s2 gIncDecMutex_var else s2))"
  by (subst umtx_init.simps) (simp add: Let_def)

lemma umtx_init_Some_global:
  "umtx_init cfg others s (Some gGlobalMutex_var) = umtx_init cfg others s None"
  by (simp add: umtx_init.simps[of _ _ _ None] umtx_init.simps[of _ _ _ "Some gGlobalMutex_var"])

lemma umtx_lock_Some:
  "umtx_lock cfg others s (Some mutex) =
     (if deref s mutex = NULL then
        (if \<not> U_ASSERT cfg False then Inl AssertionFailed
         else case umtx_init cfg others s (Some mutex) of
                Inl e \<Rightarrow> Inl e
              | Inr s1 \<Rightarrow> umtx_lock_acquire cfg s1 mutex)
      else umtx_lock_acquire cfg s mutex)"
  by (subst umtx_lock.simps) (auto simp add: Let_def umtx_lock_acquire_def split: sum.splits)

lemma umtx_lock_None:
  "umtx_lock cfg others s None = umtx_lock cfg others s (Some gGlobalMutex_var)"
  by (simp add: umtx_lock.simps[of _ _ _ None] umtx_lock.simps[of _ _ _ "Some gGlobalMutex_var"])

lemma umtx_init_caller:
  "mutex \<noteq> gGlobalMutex_var \<Longrightarrow>
   umtx_init cfg others s (Some mutex) =
     (case umtx_init_check cfg others s mutex of
        Inl e \<Rightarrow> Inl e
      | Inr (isInitialized, s2) \<Rightarrow>
          if isInitialized then Inr s2
          else (let s3 = umtx_raw_init cfg s2 tMutex_var
                in umtx_init_install cfg others ((others s3)\<lparr>tMutex := tMutex s3\<rparr>) mutex))"
  by (subst umtx_init.simps)
     (auto simp add: Let_def umtx_init_check_def umtx_init_install_def split: sum.splits)

lemma umtx_destroy_null:
  "deref s (case mutex0 of None \<Rightarrow> gGlobalMutex_var | Some m \<Rightarrow> m) = NULL \<Longrightarrow>
   umtx_destroy cfg s mutex0 = s"
  by (subst umtx_destroy.simps) (simp add: Let_def)

lemma umtx_destroy_Some:
  "m \<noteq> gGlobalMutex_var \<Longrightarrow>
   umtx_destroy cfg s (Some m) =
     (if deref s m = NULL then s
      else store (case pMutexDestroyFn s of
                    Some f \<Rightarrow> call_mutex_fn f s m
                  | None \<Rightarrow>
                      if ICU_USE_THREADS cfg then
                        (if WIN32 cfg then
                           uprv_free (deref s m) (sys (DeleteCriticalSection (deref s m)) s)
                         else if POSIX cfg then
                           uprv_free (deref s m) (sys (pthread_mutex_destroy (deref s m)) s)
                         else s)
                      else s) m NULL)"
  by (subst umtx_destroy.simps) (simp add: Let_def)

lemma umtx_destroy_None:
  "umtx_destroy cfg s None =
     (if gGlobalMutex s = NULL then s
      else (let s1 = (case pMutexDestroyFn s of
                     Some f \<Rightarrow> call_mutex_fn f s gGlobalMutex_var
                   | None \<Rightarrow>
                       if ICU_USE_THREADS cfg then
                         (if WIN32 cfg then
                            uprv_free (gGlobalMutex s)
                              (sys (DeleteCriticalSection (gGlobalMutex s)) s)
                          else if POSIX cfg then
                            uprv_free (gGlobalMutex s)
                              (sys (pthread_mutex_destroy (gGlobalMutex s)) s)
                          else s)
                       else s);
                s2 = s1\<lparr>gGlobalMutex := NULL\<rparr>
            in if POSIX cfg then umtx_destroy cfg s2 (Some gIncDecMutex_var) else s2))"
  by (subst umtx_destroy.simps) (simp add: Let_def split: option.splits)

lemma umtx_destroy_other:
  "m \<noteq> gGlobalMutex_var \<Longrightarrow> m' \<noteq> m \<Longrightarrow> deref (umtx_destroy cfg s (Some m)) m' = deref s m'"
  by (auto simp add: umtx_destroy_Some deref_store call_mutex_fn_other split: option.splits)

lemma umtx_destroy_self:
  "m \<noteq> gGlobalMutex_var \<Longrightarrow> deref (umtx_destroy cfg s (Some m)) m = NULL"
  by (simp add: umtx_destroy_Some deref_store)

lemma umtx_destroy_guard_global [simp]:
  "gGlobalMutex (umtx_destroy cfg s (Some gIncDecMutex_var)) = gGlobalMutex s"
  using umtx_destroy_other [of gIncDecMutex_var gGlobalMutex_var cfg s] by simp

lemma umtx_destroy_resets:
  "deref (umtx_destroy cfg s mutex0) (case mutex0 of None \<Rightarrow> gGlobalMutex_var | Some m \<Rightarrow> m) = NULL"
proof (cases "(case mutex0 of None \<Rightarrow> gGlobalMutex_var | Some m \<Rightarrow> m) = gGlobalMutex_var")
  case False
  then obtain m where m: "mutex0 = Some m" "m \<noteq> gGlobalMutex_var"
    by (cases mutex0) auto
  then show ?thesis by (simp add: umtx_destroy_self)
next
  case True
  then show ?thesis
    by (subst umtx_destroy.simps) (simp add: Let_def)
qed

lemma umtx_destroy_registers [simp]:
  "gIncDecContext (umtx_destroy cfg s mutex0) = gIncDecContext s"
proof -
  have g: "gIncDecContext (umtx_destroy cfg x (Some gIncDecMutex_var)) = gIncDecContext x"
    for x :: "'a umutex"
    by (simp add: umtx_destroy_Some split: option.splits)
  show ?thesis
  proof (cases "(case mutex0 of None \<Rightarrow> gGlobalMutex_var | Some m \<Rightarrow> m) = gGlobalMutex_var")
    case True
    then show ?thesis
      by (subst umtx_destroy.simps) (simp add: Let_def g split: option.splits)
  next
    case False
    then obtain m where "mutex0 = Some m" "m \<noteq> gGlobalMutex_var" by (cases mutex0) auto
    then show ?thesis by (simp add: umtx_destroy_Some split: option.splits)
  qed
qed

subsection \<open>The allocator and the construction of a lock object\<close>

lemma sys_handles [simp]:
  "gGlobalMutex (sys c s) = gGlobalMutex s"
  "gIncDecMutex (sys c s) = gIncDecMutex s"
  "tMutex (sys c s) = tMutex s"
  "caller_mutexes (sys c s) = caller_mutexes s"
  by (simp_all add: sys_def)

lemma uprv_malloc_handles [simp]:
  "gGlobalMutex (snd (uprv_malloc s)) = gGlobalMutex s"
  "gIncDecMutex (snd (uprv_malloc s)) = gIncDecMutex s"
  "tMutex (snd (uprv_malloc s)) = tMutex s"
  "caller_mutexes (snd (uprv_malloc s)) = caller_mutexes s"
  by (simp_all add: uprv_malloc_def Let_def split: list.splits bool.splits)

lemma uprv_free_handles [simp]:
  "gGlobalMutex (uprv_free p s) = gGlobalMutex s"
  "gIncDecMutex (uprv_free p s) = gIncDecMutex s"
  "tMutex (uprv_free p s) = tMutex s"
  "caller_mutexes (uprv_free p s) = caller_mutexes s"
  by (simp_all add: uprv_free_def split: ptr.splits)

lemma uprv_malloc_heap:
  "heap x = heap y \<Longrightarrow>
   fst (uprv_malloc x) = fst (uprv_malloc y) \<and> heap (snd (uprv_malloc x)) = heap (snd (uprv_malloc y))"
  by (simp add: uprv_malloc_def Let_def split: list.splits bool.splits)

lemma uprv_malloc_grows: "b \<in> blocks (heap s) \<Longrightarrow> b \<in> blocks (heap (snd (uprv_malloc s)))"
  by (simp add: uprv_malloc_def Let_def split: list.splits bool.splits)

lemma uprv_malloc_live: "fst (uprv_malloc s) = Block b \<Longrightarrow> b \<in> blocks (heap (snd (uprv_malloc s)))"
  by (auto simp add: uprv_malloc_def Let_def split: list.splits bool.splits)

lemma uprv_malloc_result:
  "fst (uprv_malloc s) = NULL \<or> fst (uprv_malloc s) = Block (next_block (heap s))"
  by (simp add: uprv_malloc_def Let_def split: list.splits bool.splits)

lemma umtx_raw_init_threads:
  "pMutexInitFn s = None \<Longrightarrow> ICU_USE_THREADS cfg \<Longrightarrow> WIN32 cfg \<or> POSIX cfg \<Longrightarrow>
   umtx_raw_init cfg s m =
     (if fst (uprv_malloc s) = NULL then snd (uprv_malloc s)
      else store (sys (if WIN32 cfg then InitializeCriticalSection (fst (uprv_malloc s))
                       else pthread_mutex_init (fst (uprv_malloc s)))
                    (snd (uprv_malloc s))) m (fst (uprv_malloc s)))"
  by (auto simp add: umtx_raw_init_def case_prod_beta)

lemma umtx_raw_init_nothreads:
  "pMutexInitFn s = None \<Longrightarrow> \<not> ICU_USE_THREADS cfg \<Longrightarrow>
   umtx_raw_init cfg s m = store s m (VarAddr m)"
  by (simp add: umtx_raw_init_def)


lemma umtx_raw_init_backend:
  "pMutexInitFn s = Some f \<Longrightarrow>
   umtx_raw_init cfg s m =
     store (s\<lparr>world := fst (f (world s) (gMutexContext s) (deref s m) U_ZERO_ERROR)\<rparr>) m
       (fst (snd (f (world s) (gMutexContext s) (deref s m) U_ZERO_ERROR)))"
  by (simp add: umtx_raw_init_def case_prod_beta)

lemma umtx_raw_init_held [simp]: "held (umtx_raw_init cfg s m) = held s"
  by (simp add: umtx_raw_init_def case_prod_beta split: option.splits)

lemma umtx_raw_init_lockfn [simp]: "pMutexLockFn (umtx_raw_init cfg s m) = pMutexLockFn s"
  by (simp add: umtx_raw_init_def case_prod_beta split: option.splits)

lemma native_mutex_upd [simp]:
  "native_mutex (s\<lparr>tMutex := t\<rparr>) p = native_mutex s p"
  "native_mutex (s\<lparr>calls := c\<rparr>) p = native_mutex s p"
  "native_mutex (s\<lparr>caller_mutexes := cm\<rparr>) p = native_mutex s p"
  "native_mutex (s\<lparr>held := h\<rparr>) p = native_mutex s p"
  "native_mutex (s\<lparr>gRecursionCount := n\<rparr>) p = native_mutex s p"
  "native_mutex (s\<lparr>world := w\<rparr>) p = native_mutex s p"
  "native_mutex (sys c' s) p = native_mutex s p"
  "native_mutex (store s m v) p = native_mutex s p"
  by (simp_all add: native_mutex_def cong: ptr.case_cong)



subsection \<open>Initializing the global mutex\<close>

lemma umtx_init_global_outcome:
  assumes "gGlobalMutex s = NULL"
  shows "\<exists>s'. umtx_init cfg others s None = Inr s' \<and> gRecursionCount s' = 0 \<and>
            held s' = held s \<and> pMutexLockFn s' = pMutexLockFn s \<and>
            (gGlobalMutex s' \<noteq> NULL \<longrightarrow> umtx_init cfg others s' None = Inr s') \<and>
            (pMutexInitFn s = None \<and> ICU_USE_THREADS cfg \<and> (WIN32 cfg \<or> POSIX cfg) \<longrightarrow>
               gGlobalMutex s' = fst (uprv_malloc s) \<and>
               (\<forall>b. fst (uprv_malloc s) = Block b \<longrightarrow> b \<in> blocks (heap s')) \<and>
               calls s' = calls s @
                 (if fst (uprv_malloc s) = NULL then []
                  else [if WIN32 cfg then InitializeCriticalSection (fst (uprv_malloc s))
                        else pthread_mutex_init (fst (uprv_malloc s))]) @
                 (if POSIX cfg \<and> fst (uprv_malloc (snd (uprv_malloc s))) \<noteq> NULL
                  then [if WIN32 cfg
                        then InitializeCriticalSection (fst (uprv_malloc (snd (uprv_malloc s))))
                        else pthread_mutex_init (fst (uprv_malloc (snd (uprv_malloc s))))]
                  else []) \<and>
               (if POSIX cfg
                then gIncDecMutex s' =
                       (if fst (uprv_malloc (snd (uprv_malloc s))) = NULL then gIncDecMutex s
                        else fst (uprv_malloc (snd (uprv_malloc s)))) \<and>
                     (\<forall>b. fst (uprv_malloc (snd (uprv_malloc s))) = Block b \<longrightarrow>
                            b \<in> blocks (heap s'))
                else gIncDecMutex s' = gIncDecMutex s)) \<and>
            (pMutexInitFn s = None \<and> \<not> ICU_USE_THREADS cfg \<longrightarrow>
               gGlobalMutex s' = VarAddr gGlobalMutex_var \<and>
               gIncDecMutex s' = (if POSIX cfg then VarAddr gIncDecMutex_var else gIncDecMutex s)) \<and>
            (\<forall>f. pMutexInitFn s = Some f \<longrightarrow>
               gGlobalMutex s' = fst (snd (f (world s) (gMutexContext s) NULL U_ZERO_ERROR)) \<and>
               (if POSIX cfg
                then gIncDecMutex s' =
                       fst (snd (f (fst (f (world s) (gMutexContext s) NULL U_ZERO_ERROR))
                                   (gMutexContext s) (gIncDecMutex s) U_ZERO_ERROR)) \<and>
                     world s' =
                       fst (f (fst (f (world s) (gMutexContext s) NULL U_ZERO_ERROR))
                              (gMutexContext s) (gIncDecMutex s) U_ZERO_ERROR)
                else gIncDecMutex s' = gIncDecMutex s \<and>
                     world s' = fst (f (world s) (gMutexContext s) NULL U_ZERO_ERROR)))"
proof -
  note True = assms
  define s1 where "s1 = (umtx_raw_init cfg s gGlobalMutex_var)\<lparr>gRecursionCount := 0\<rparr>"
  define s' where "s' = (if POSIX cfg then umtx_raw_init cfg s1 gIncDecMutex_var else s1)"
  have r: "umtx_init cfg others s None = Inr s'"
    using True by (simp add: umtx_init_None Let_def s1_def s'_def)
  have c: "gRecursionCount s' = 0" "held s' = held s" "pMutexLockFn s' = pMutexLockFn s"
    by (simp_all add: s'_def s1_def)
  have i: "gGlobalMutex s' \<noteq> NULL \<longrightarrow> umtx_init cfg others s' None = Inr s'"
    by (simp add: umtx_init_None)
  have n: "pMutexInitFn s = None \<and> ICU_USE_THREADS cfg \<and> (WIN32 cfg \<or> POSIX cfg) \<longrightarrow>
               gGlobalMutex s' = fst (uprv_malloc s) \<and>
               (\<forall>b. fst (uprv_malloc s) = Block b \<longrightarrow> b \<in> blocks (heap s')) \<and>
               calls s' = calls s @
                 (if fst (uprv_malloc s) = NULL then []
                  else [if WIN32 cfg then InitializeCriticalSection (fst (uprv_malloc s))
                        else pthread_mutex_init (fst (uprv_malloc s))]) @
                 (if POSIX cfg \<and> fst (uprv_malloc (snd (uprv_malloc s))) \<noteq> NULL
                  then [if WIN32 cfg
                        then InitializeCriticalSection (fst (uprv_malloc (snd (uprv_malloc s))))
                        else pthread_mutex_init (fst (uprv_malloc (snd (uprv_malloc s))))]
                  else []) \<and>
               (if POSIX cfg
                then gIncDecMutex s' =
                       (if fst (uprv_malloc (snd (uprv_malloc s))) = NULL then gIncDecMutex s
                        else fst (uprv_malloc (snd (uprv_malloc s)))) \<and>
                     (\<forall>b. fst (uprv_malloc (snd (uprv_malloc s))) = Block b \<longrightarrow>
                            b \<in> blocks (heap s'))
                else gIncDecMutex s' = gIncDecMutex s)"
  proof (intro impI)
    assume a: "pMutexInitFn s = None \<and> ICU_USE_THREADS cfg \<and> (WIN32 cfg \<or> POSIX cfg)"
    have h1: "heap s1 = heap (snd (uprv_malloc s))"
      using a by (simp add: s1_def umtx_raw_init_threads)
    have g1: "gGlobalMutex s1 = fst (uprv_malloc s)" "gIncDecMutex s1 = gIncDecMutex s"
      "pMutexInitFn s1 = None"
      using a True
      by (simp_all add: s1_def umtx_raw_init_threads)
    have c1: "calls s1 = calls s @
                 (if fst (uprv_malloc s) = NULL then []
                  else [if WIN32 cfg then InitializeCriticalSection (fst (uprv_malloc s))
                        else pthread_mutex_init (fst (uprv_malloc s))])"
      using a by (simp add: s1_def umtx_raw_init_threads)
    have m2: "fst (uprv_malloc s1) = fst (uprv_malloc (snd (uprv_malloc s)))"
      "heap (snd (uprv_malloc s1)) = heap (snd (uprv_malloc (snd (uprv_malloc s))))"
      using uprv_malloc_heap [OF h1] by simp_all
    show "gGlobalMutex s' = fst (uprv_malloc s) \<and>
               (\<forall>b. fst (uprv_malloc s) = Block b \<longrightarrow> b \<in> blocks (heap s')) \<and>
               calls s' = calls s @
                 (if fst (uprv_malloc s) = NULL then []
                  else [if WIN32 cfg then InitializeCriticalSection (fst (uprv_malloc s))
                        else pthread_mutex_init (fst (uprv_malloc s))]) @
                 (if POSIX cfg \<and> fst (uprv_malloc (snd (uprv_malloc s))) \<noteq> NULL
                  then [if WIN32 cfg
                        then InitializeCriticalSection (fst (uprv_malloc (snd (uprv_malloc s))))
                        else pthread_mutex_init (fst (uprv_malloc (snd (uprv_malloc s))))]
                  else []) \<and>
               (if POSIX cfg
                then gIncDecMutex s' =
                       (if fst (uprv_malloc (snd (uprv_malloc s))) = NULL then gIncDecMutex s
                        else fst (uprv_malloc (snd (uprv_malloc s)))) \<and>
                     (\<forall>b. fst (uprv_malloc (snd (uprv_malloc s))) = Block b \<longrightarrow>
                            b \<in> blocks (heap s'))
                else gIncDecMutex s' = gIncDecMutex s)"
    proof (cases "POSIX cfg")
      case False
      then show ?thesis
        using g1 h1 c1 uprv_malloc_live [of s] by (auto simp add: s'_def)
    next
      case True
      have e: "s' = umtx_raw_init cfg s1 gIncDecMutex_var" using True by (simp add: s'_def)
      have hs: "heap s' = heap (snd (uprv_malloc (snd (uprv_malloc s))))"
        using a g1 m2 by (simp add: e umtx_raw_init_threads)
      have gg: "gGlobalMutex s' = fst (uprv_malloc s)"
        using g1 umtx_raw_init_other [of gGlobalMutex_var gIncDecMutex_var cfg s1]
        by (simp add: e)
      have cs: "calls s' = calls s1 @
                 (if fst (uprv_malloc (snd (uprv_malloc s))) \<noteq> NULL
                  then [if WIN32 cfg
                        then InitializeCriticalSection (fst (uprv_malloc (snd (uprv_malloc s))))
                        else pthread_mutex_init (fst (uprv_malloc (snd (uprv_malloc s))))]
                  else [])"
        using a g1 m2 by (simp add: e umtx_raw_init_threads)
      have gi: "gIncDecMutex s' =
                       (if fst (uprv_malloc (snd (uprv_malloc s))) = NULL then gIncDecMutex s
                        else fst (uprv_malloc (snd (uprv_malloc s))))"
        using a g1 m2
        by (simp add: e umtx_raw_init_threads)
      show ?thesis
        using True gg gi hs uprv_malloc_live [of s] uprv_malloc_live [of "snd (uprv_malloc s)"]
          uprv_malloc_grows [of _ "snd (uprv_malloc s)"]
        by (auto simp add: cs c1)
    qed
  qed
  have t: "pMutexInitFn s = None \<and> \<not> ICU_USE_THREADS cfg \<longrightarrow>
               gGlobalMutex s' = VarAddr gGlobalMutex_var \<and>
               gIncDecMutex s' = (if POSIX cfg then VarAddr gIncDecMutex_var else gIncDecMutex s)"
    by (simp add: s'_def s1_def umtx_raw_init_nothreads)
  have b: "\<forall>f. pMutexInitFn s = Some f \<longrightarrow>
               gGlobalMutex s' = fst (snd (f (world s) (gMutexContext s) NULL U_ZERO_ERROR)) \<and>
               (if POSIX cfg
                then gIncDecMutex s' =
                       fst (snd (f (fst (f (world s) (gMutexContext s) NULL U_ZERO_ERROR))
                                   (gMutexContext s) (gIncDecMutex s) U_ZERO_ERROR)) \<and>
                     world s' =
                       fst (f (fst (f (world s) (gMutexContext s) NULL U_ZERO_ERROR))
                              (gMutexContext s) (gIncDecMutex s) U_ZERO_ERROR)
                else gIncDecMutex s' = gIncDecMutex s \<and>
                     world s' = fst (f (world s) (gMutexContext s) NULL U_ZERO_ERROR))"
    using True by (simp add: s'_def s1_def umtx_raw_init_backend)
  from r c i n t b show ?thesis by simp
qed

subsection \<open>A critical section on a settled global mutex\<close>



lemma settled_upd [simp]:
  "settled cfg (s\<lparr>tMutex := t\<rparr>) = settled cfg s"
  "settled cfg (s\<lparr>calls := c\<rparr>) = settled cfg s"
  "settled cfg (s\<lparr>caller_mutexes := cm\<rparr>) = settled cfg s"
  by (simp_all add: settled_def cong: option.case_cong if_cong)










subsection \<open>A critical section under a registered backend\<close>

lemma backed_upd [simp]:
  "backed i d l u (s\<lparr>tMutex := t\<rparr>) = backed i d l u s"
  "backed i d l u (s\<lparr>calls := c\<rparr>) = backed i d l u s"
  "backed i d l u (s\<lparr>caller_mutexes := cm\<rparr>) = backed i d l u s"
  "backed i d l u (s\<lparr>world := w\<rparr>) = backed i d l u s"
  by (simp_all add: backed_def)








subsection \<open>The acquisition and the atomic operations\<close>

lemma umtx_lock_acquire_native:
  assumes "pMutexLockFn s1 = None" "ICU_USE_THREADS cfg" "WIN32 cfg \<or> POSIX cfg" "\<not> U_DEBUG cfg"
  shows "case native_mutex s1 (deref s1 mutex) of
           None \<Rightarrow> umtx_lock_acquire cfg s1 mutex = Inl Crash
         | Some b \<Rightarrow>
             if \<not> WIN32 cfg \<and> held s1 b \<noteq> 0
             then umtx_lock_acquire cfg s1 mutex = Inl Deadlock
             else (\<exists>s'. umtx_lock_acquire cfg s1 mutex = Inr s' \<and>
                        held s' b = Suc (held s1 b) \<and>
                        calls s' = calls s1 @
                          [if WIN32 cfg then EnterCriticalSection (deref s1 mutex)
                           else pthread_mutex_lock (deref s1 mutex)] \<and>
                        deref s' mutex = deref s1 mutex \<and> heap s' = heap s1)"
proof (cases "native_mutex s1 (deref s1 mutex)")
  case None
  with assms show ?thesis
    by (auto simp add: umtx_lock_acquire_def sys_pthread_mutex_lock_def
        sys_EnterCriticalSection_def)
next
  case (Some b)
  with assms show ?thesis
    by (auto simp add: umtx_lock_acquire_def sys_pthread_mutex_lock_def
        sys_EnterCriticalSection_def U_ASSERT_def Let_def)
qed

lemma umtx_lock_acquire_backend:
  assumes "pMutexLockFn s1 = Some f" "\<not> U_DEBUG cfg"
  shows "\<exists>s'. umtx_lock_acquire cfg s1 mutex = Inr s' \<and>
              world s' = fst (f (world s1) (gMutexContext s1) (deref s1 mutex)) \<and>
              deref s' mutex = snd (f (world s1) (gMutexContext s1) (deref s1 mutex))"
  using assms
  by (auto simp add: umtx_lock_acquire_def U_ASSERT_def Let_def call_mutex_fn_def
      case_prod_beta deref_store)


lemma guard_live_calls [simp]: "guard_live cfg (s\<lparr>calls := c\<rparr>) = guard_live cfg s"
  by (simp add: guard_live_def cong: option.case_cong if_cong)





subsection \<open>Runs on the example states\<close>

lemmas run_simps =
  umtx_lock_None umtx_lock_Some umtx_lock_acquire_def umtx_unlock_def umtx_init_None
  umtx_init_Some_global umtx_init_caller umtx_init_check_def umtx_init_install_def
  umtx_raw_init_def native_mutex_def sys_pthread_mutex_lock_def sys_pthread_mutex_unlock_def
  sys_EnterCriticalSection_def sys_LeaveCriticalSection_def uprv_malloc_def uprv_free_def sys_def call_mutex_fn_def
  umtx_destroy_Some U_ASSERT_def Let_def

lemma cmemory_inUse_busy: "cmemory_inUse busy"
  by (simp add: busy_def uprv_malloc_def pristine_def cmemory_inUse_def Let_def)

lemma halfway_eq:
  "halfway = (pristine [] 0)\<lparr>pMutexInitFn := Some half_init, pMutexDestroyFn := Some cb_mutex,
                pMutexLockFn := Some cb_mutex, pMutexUnlockFn := Some cb_mutex,
                gMutexContext := Foreign 1\<rparr>"
  by (simp add: halfway_def u_setMutexFunctions_def cmemory_inUse_def pristine_def)

lemma refusing_eq:
  "refusing = (pristine [] 0)\<lparr>pMutexInitFn := Some failing_init, pMutexDestroyFn := Some cb_mutex,
                pMutexLockFn := Some cb_mutex, pMutexUnlockFn := Some cb_mutex,
                gMutexContext := Foreign 1\<rparr>"
  by (simp add: refusing_def u_setMutexFunctions_def cmemory_inUse_def pristine_def)






section \<open>The claims\<close>

subsection \<open>C1: initializing a handle other than the global one\<close>




subsection \<open>C2: the value returned by the atomic operations\<close>




subsection \<open>C3: what umtx_cleanup leaves behind\<close>

text \<open>
  C3. \<^verbatim>\<open>umtx_cleanup\<close> is meant to leave both the global mutex and the guard mutex
  uninitialized. It does not on the state \<open>half\<close>, which \<^verbatim>\<open>umtx_init(NULL)\<close> reaches
  from program start in a POSIX build with threads when the first allocation fails and the
  second succeeds: the global handle is null, so \<^verbatim>\<open>umtx_destroy(NULL)\<close> returns at line
  271 before it reaches the guard (lines 290-294), and the guard mutex stays live with its
  block allocated.
\<close>

theorem umtx_cleanup_leaves_guard:
  "umtx_init posix_release id (pristine [False] 0) None = Inr half \<and>
   gGlobalMutex half = NULL \<and> gIncDecMutex half = Block 0 \<and>
   gGlobalMutex (fst (umtx_cleanup posix_release half)) = NULL \<and>
   gIncDecMutex (fst (umtx_cleanup posix_release half)) = Block 0 \<and>
   0 \<in> blocks (heap (fst (umtx_cleanup posix_release half)))"
  by (auto simp add: run_simps umtx_cleanup_def umtx_destroy_None pristine_def half_def
      posix_release_def)

text \<open>
  Where the guard is null already or the global mutex is live in a POSIX build,
  \<^verbatim>\<open>umtx_cleanup\<close> returns \<^verbatim>\<open>TRUE\<close> with both handles null, the six callbacks and the
  mutex context cleared. It does not write \<open>gIncDecContext\<close>, which no function of the
  file ever assigns.
\<close>

lemma umtx_cleanup_resets:
  "gIncDecMutex s = NULL \<or> (POSIX cfg \<and> gGlobalMutex s \<noteq> NULL) \<Longrightarrow>
   umtx_cleanup cfg s = (s', r) \<Longrightarrow>
     r \<and> gGlobalMutex s' = NULL \<and> gIncDecMutex s' = NULL \<and>
     pMutexInitFn s' = None \<and> pMutexDestroyFn s' = None \<and> pMutexLockFn s' = None \<and>
     pMutexUnlockFn s' = None \<and> gMutexContext s' = NULL \<and> pIncFn s' = None \<and>
     pDecFn s' = None \<and> gIncDecContext s' = gIncDecContext s"
proof -
  assume a: "gIncDecMutex s = NULL \<or> (POSIX cfg \<and> gGlobalMutex s \<noteq> NULL)"
    and c: "umtx_cleanup cfg s = (s', r)"
  have g: "gGlobalMutex (umtx_destroy cfg s None) = NULL"
    using umtx_destroy_resets [of cfg s None] by simp
  have i: "gIncDecMutex (umtx_destroy cfg s None) = NULL"
  proof (cases "gGlobalMutex s = NULL")
    case True
    with a show ?thesis by (simp add: umtx_destroy_None)
  next
    case False
    have o: "gIncDecMutex (call_mutex_fn f s gGlobalMutex_var) = gIncDecMutex s" for f
      using call_mutex_fn_other [of gIncDecMutex_var gGlobalMutex_var f s] by simp
    have k: "gIncDecMutex (uprv_free p x) = gIncDecMutex x" for p and x :: "'a umutex"
      using uprv_free_fields(1) [of p x gIncDecMutex_var] by simp
    have d: "gIncDecMutex (umtx_destroy cfg x (Some gIncDecMutex_var)) = NULL" for x :: "'a umutex"
      using umtx_destroy_self [of gIncDecMutex_var cfg x] by simp
    from False a show ?thesis
      by (auto simp add: umtx_destroy_None Let_def d o k sys_def split: option.splits)
  qed
  from c g i show ?thesis
    by (auto simp add: umtx_cleanup_def Let_def)
qed

subsection \<open>C4: locking and unlocking an uninitialized handle\<close>

text \<open>
  C4, as amended. On a handle that is null: a debug build stops at the assertion in both
  \<^verbatim>\<open>umtx_lock\<close> and \<^verbatim>\<open>umtx_unlock\<close>. A release build of \<^verbatim>\<open>umtx_unlock\<close> returns at
  once with the state as it was, without initializing the handle. A release build of
  \<^verbatim>\<open>umtx_lock\<close> runs \<^verbatim>\<open>umtx_init\<close> on the handle and then goes on to the acquisition
  with whatever the handle is then. In a native build with threads: if the handle is not a
  live lock object after the initialization (it is still null when the construction
  failed) the platform lock is called on it and the call does not return; if it is live
  the lock is taken, once more than before, and the platform call is in the record. With a
  lock callback registered the callback is called on the handle. For the global mutex of a
  native build with threads this gives: when the allocation fails the call crashes, and
  when it succeeds the call returns with the new block as the global mutex, held once.
\<close>

theorem umtx_lock_unlock_uninitialized:
  "mutex = (case mutex0 of None \<Rightarrow> gGlobalMutex_var | Some m \<Rightarrow> m) \<Longrightarrow> deref s mutex = NULL \<Longrightarrow>
   (if U_DEBUG cfg
    then umtx_lock cfg others s mutex0 = Inl AssertionFailed \<and>
         umtx_unlock cfg s mutex0 = Inl AssertionFailed
    else umtx_unlock cfg s mutex0 = Inr s \<and>
         umtx_lock cfg others s mutex0 =
           (case umtx_init cfg others s (Some mutex) of
              Inl e \<Rightarrow> Inl e
            | Inr s1 \<Rightarrow> umtx_lock_acquire cfg s1 mutex) \<and>
         (\<forall>s1. umtx_init cfg others s (Some mutex) = Inr s1 \<and> pMutexLockFn s1 = None \<and>
               ICU_USE_THREADS cfg \<and> (WIN32 cfg \<or> POSIX cfg) \<longrightarrow>
               (case native_mutex s1 (deref s1 mutex) of
                  None \<Rightarrow> umtx_lock cfg others s mutex0 = Inl Crash
                | Some b \<Rightarrow>
                    if \<not> WIN32 cfg \<and> held s1 b \<noteq> 0
                    then umtx_lock cfg others s mutex0 = Inl Deadlock
                    else (\<exists>s'. umtx_lock cfg others s mutex0 = Inr s' \<and>
                               held s' b = Suc (held s1 b) \<and>
                               calls s' = calls s1 @
                                 [if WIN32 cfg then EnterCriticalSection (deref s1 mutex)
                                  else pthread_mutex_lock (deref s1 mutex)] \<and>
                               deref s' mutex = deref s1 mutex \<and> heap s' = heap s1))) \<and>
         (\<forall>s1 f. umtx_init cfg others s (Some mutex) = Inr s1 \<and> pMutexLockFn s1 = Some f \<longrightarrow>
               (\<exists>s'. umtx_lock cfg others s mutex0 = Inr s' \<and>
                     world s' = fst (f (world s1) (gMutexContext s1) (deref s1 mutex)) \<and>
                     deref s' mutex =
                       snd (f (world s1) (gMutexContext s1) (deref s1 mutex)))) \<and>
         (mutex = gGlobalMutex_var \<and> pMutexInitFn s = None \<and> pMutexLockFn s = None \<and>
          ICU_USE_THREADS cfg \<and> (WIN32 cfg \<or> POSIX cfg) \<and> held s (next_block (heap s)) = 0 \<longrightarrow>
            (if fst (uprv_malloc s) = NULL
             then umtx_lock cfg others s mutex0 = Inl Crash
             else (\<exists>s'. umtx_lock cfg others s mutex0 = Inr s' \<and>
                        gGlobalMutex s' = Block (next_block (heap s)) \<and>
                        next_block (heap s) \<in> blocks (heap s') \<and>
                        held s' (next_block (heap s)) = 1))))"
proof -
  assume m: "mutex = (case mutex0 of None \<Rightarrow> gGlobalMutex_var | Some m \<Rightarrow> m)"
    and n: "deref s mutex = NULL"
  have e: "umtx_lock cfg others s mutex0 = umtx_lock cfg others s (Some mutex)"
    by (cases mutex0) (simp_all add: m umtx_lock_None)
  have u: "umtx_unlock cfg s mutex0 = (if U_DEBUG cfg then Inl AssertionFailed else Inr s)"
    using m n by (simp add: umtx_unlock_def U_ASSERT_def)
  show ?thesis
  proof (cases "U_DEBUG cfg")
    case True
    with n u show ?thesis by (simp add: e umtx_lock_Some U_ASSERT_def)
  next
    case False
    have l: "umtx_lock cfg others s mutex0 =
           (case umtx_init cfg others s (Some mutex) of
              Inl e \<Rightarrow> Inl e
            | Inr s1 \<Rightarrow> umtx_lock_acquire cfg s1 mutex)"
      using n False by (simp add: e umtx_lock_Some U_ASSERT_def)
    have c: "\<forall>s1. umtx_init cfg others s (Some mutex) = Inr s1 \<and> pMutexLockFn s1 = None \<and>
               ICU_USE_THREADS cfg \<and> (WIN32 cfg \<or> POSIX cfg) \<longrightarrow>
               (case native_mutex s1 (deref s1 mutex) of
                  None \<Rightarrow> umtx_lock cfg others s mutex0 = Inl Crash
                | Some b \<Rightarrow>
                    if \<not> WIN32 cfg \<and> held s1 b \<noteq> 0
                    then umtx_lock cfg others s mutex0 = Inl Deadlock
                    else (\<exists>s'. umtx_lock cfg others s mutex0 = Inr s' \<and>
                               held s' b = Suc (held s1 b) \<and>
                               calls s' = calls s1 @
                                 [if WIN32 cfg then EnterCriticalSection (deref s1 mutex)
                                  else pthread_mutex_lock (deref s1 mutex)] \<and>
                               deref s' mutex = deref s1 mutex \<and> heap s' = heap s1))"
    proof (intro allI impI)
      fix s1
      assume a: "umtx_init cfg others s (Some mutex) = Inr s1 \<and> pMutexLockFn s1 = None \<and>
               ICU_USE_THREADS cfg \<and> (WIN32 cfg \<or> POSIX cfg)"
      have q: "umtx_lock cfg others s mutex0 = umtx_lock_acquire cfg s1 mutex"
        using a by (simp add: l)
      show "case native_mutex s1 (deref s1 mutex) of
                  None \<Rightarrow> umtx_lock cfg others s mutex0 = Inl Crash
                | Some b \<Rightarrow>
                    if \<not> WIN32 cfg \<and> held s1 b \<noteq> 0
                    then umtx_lock cfg others s mutex0 = Inl Deadlock
                    else (\<exists>s'. umtx_lock cfg others s mutex0 = Inr s' \<and>
                               held s' b = Suc (held s1 b) \<and>
                               calls s' = calls s1 @
                                 [if WIN32 cfg then EnterCriticalSection (deref s1 mutex)
                                  else pthread_mutex_lock (deref s1 mutex)] \<and>
                               deref s' mutex = deref s1 mutex \<and> heap s' = heap s1)"
        unfolding q by (rule umtx_lock_acquire_native) (use a False in simp_all)
    qed
    have b: "\<forall>s1 f. umtx_init cfg others s (Some mutex) = Inr s1 \<and> pMutexLockFn s1 = Some f \<longrightarrow>
               (\<exists>s'. umtx_lock cfg others s mutex0 = Inr s' \<and>
                     world s' = fst (f (world s1) (gMutexContext s1) (deref s1 mutex)) \<and>
                     deref s' mutex =
                       snd (f (world s1) (gMutexContext s1) (deref s1 mutex)))"
    proof (intro allI impI)
      fix s1 f
      assume a: "umtx_init cfg others s (Some mutex) = Inr s1 \<and> pMutexLockFn s1 = Some f"
      have q: "umtx_lock cfg others s mutex0 = umtx_lock_acquire cfg s1 mutex"
        using a by (simp add: l)
      show "\<exists>s'. umtx_lock cfg others s mutex0 = Inr s' \<and>
                     world s' = fst (f (world s1) (gMutexContext s1) (deref s1 mutex)) \<and>
                     deref s' mutex =
                       snd (f (world s1) (gMutexContext s1) (deref s1 mutex))"
        unfolding q by (rule umtx_lock_acquire_backend) (use a False in simp_all)
    qed
    have g: "mutex = gGlobalMutex_var \<and> pMutexInitFn s = None \<and> pMutexLockFn s = None \<and>
          ICU_USE_THREADS cfg \<and> (WIN32 cfg \<or> POSIX cfg) \<and> held s (next_block (heap s)) = 0 \<longrightarrow>
            (if fst (uprv_malloc s) = NULL
             then umtx_lock cfg others s mutex0 = Inl Crash
             else (\<exists>s'. umtx_lock cfg others s mutex0 = Inr s' \<and>
                        gGlobalMutex s' = Block (next_block (heap s)) \<and>
                        next_block (heap s) \<in> blocks (heap s') \<and>
                        held s' (next_block (heap s)) = 1))"
    proof (intro impI)
      assume a: "mutex = gGlobalMutex_var \<and> pMutexInitFn s = None \<and> pMutexLockFn s = None \<and>
          ICU_USE_THREADS cfg \<and> (WIN32 cfg \<or> POSIX cfg) \<and> held s (next_block (heap s)) = 0"
      have gn: "gGlobalMutex s = NULL" using a n by simp
      obtain s1 where i: "umtx_init cfg others s None = Inr s1" and h: "held s1 = held s"
        and p: "pMutexLockFn s1 = None" and gg: "gGlobalMutex s1 = fst (uprv_malloc s)"
        and bl: "\<forall>b. fst (uprv_malloc s) = Block b \<longrightarrow> b \<in> blocks (heap s1)"
        using umtx_init_global_outcome [OF gn, of cfg others] a by auto
      have i': "umtx_init cfg others s (Some mutex) = Inr s1"
        using a i by (simp add: umtx_init_Some_global)
      note c1 = c [rule_format, of s1, OF conjI [OF i' conjI [OF p conjI]]]
      show "if fst (uprv_malloc s) = NULL
             then umtx_lock cfg others s mutex0 = Inl Crash
             else (\<exists>s'. umtx_lock cfg others s mutex0 = Inr s' \<and>
                        gGlobalMutex s' = Block (next_block (heap s)) \<and>
                        next_block (heap s) \<in> blocks (heap s') \<and>
                        held s' (next_block (heap s)) = 1)"
      proof (cases "fst (uprv_malloc s) = NULL")
        case True
        then have "native_mutex s1 (deref s1 mutex) = None"
          using a gg by (simp add: native_mutex_def)
        with c1 a True show ?thesis by simp
      next
        case nz: False
        then have fb: "fst (uprv_malloc s) = Block (next_block (heap s))"
          using uprv_malloc_result [of s] by simp
        have nm: "native_mutex s1 (deref s1 mutex) = Some (next_block (heap s))"
          using a gg fb bl by (simp add: native_mutex_def)
        obtain s' where r: "umtx_lock cfg others s mutex0 = Inr s'"
          and hh: "held s' (next_block (heap s)) = Suc (held s1 (next_block (heap s)))"
          and cc: "calls s' = calls s1 @
                                 [if WIN32 cfg then EnterCriticalSection (deref s1 mutex)
                                  else pthread_mutex_lock (deref s1 mutex)]"
          and dd: "deref s' mutex = deref s1 mutex" "heap s' = heap s1"
          using c1 a nm h by auto
        from nz r hh h a gg fb bl dd show ?thesis by simp
      qed
    qed
    from False u l c b g show ?thesis by simp
  qed
qed

text \<open>
  On \<open>ready\<close>: the debug build stops in both functions; the release build of
  \<^verbatim>\<open>umtx_unlock\<close> changes nothing, and that of \<^verbatim>\<open>umtx_lock\<close> installs block 2 and
  takes it. At program start the release build of \<^verbatim>\<open>umtx_lock(NULL)\<close> constructs the
  global mutex and takes it.
\<close>

theorem umtx_lock_unlock_uninitialized_witness:
  "deref ready (caller_var 0) = NULL \<and> U_DEBUG posix_debug \<and>
   umtx_lock posix_debug id ready (Some (caller_var 0)) = Inl AssertionFailed \<and>
   umtx_unlock posix_debug ready (Some (caller_var 0)) = Inl AssertionFailed \<and>
   \<not> U_DEBUG posix_release \<and>
   umtx_unlock posix_release ready (Some (caller_var 0)) = Inr ready \<and>
   umtx_init posix_release id ready (Some (caller_var 0)) = Inr owned \<and>
   umtx_lock posix_release id ready (Some (caller_var 0)) =
     Inr (owned\<lparr>held := (\<lambda>b. 0)(2 := 1),
                calls := calls owned @ [pthread_mutex_lock (Block 2)]\<rparr>) \<and>
   gGlobalMutex (pristine [] (0::nat)) = NULL \<and>
   umtx_lock posix_release id (pristine [] 0) None = Inr holding \<and>
   gGlobalMutex holding = Block 0 \<and> held holding 0 = 1"
proof -
  have n: "deref ready (caller_var 0) = NULL" by (simp add: ready_def pristine_def)
  have d: "U_DEBUG posix_debug" "\<not> U_DEBUG posix_release"
    by (simp_all add: posix_debug_def posix_release_def)
  from umtx_lock_unlock_uninitialized [of "caller_var 0" "Some (caller_var 0)" ready posix_debug id] d n
  have 1: "umtx_lock posix_debug id ready (Some (caller_var 0)) = Inl AssertionFailed \<and>
   umtx_unlock posix_debug ready (Some (caller_var 0)) = Inl AssertionFailed" by simp
  have i: "umtx_init posix_release id ready (Some (caller_var 0)) = Inr owned"
    by (auto simp add: run_simps owned_def ready_def pristine_def posix_release_def)
  from umtx_lock_unlock_uninitialized [of "caller_var 0" "Some (caller_var 0)" ready
      posix_release id] d n
  have 2: "umtx_unlock posix_release ready (Some (caller_var 0)) = Inr ready"
    and 3: "umtx_lock posix_release id ready (Some (caller_var 0)) =
              umtx_lock_acquire posix_release owned (caller_var 0)"
    by (simp_all add: i)
  have 4: "umtx_lock_acquire posix_release owned (caller_var 0) =
     Inr (owned\<lparr>held := (\<lambda>b. 0)(2 := 1),
                calls := calls owned @ [pthread_mutex_lock (Block 2)]\<rparr>)"
    by (auto simp add: run_simps owned_def ready_def pristine_def posix_release_def)
  have 5: "gGlobalMutex (pristine [] (0::nat)) = NULL"
    "umtx_lock posix_release id (pristine [] 0) None = Inr holding"
    "gGlobalMutex holding = Block 0" "held holding 0 = 1"
    by (auto simp add: run_simps holding_def ready_def pristine_def posix_release_def)
  from n d 1 2 3 4 5 i show ?thesis by simp
qed

text \<open>
  The claim as stated fails for \<^verbatim>\<open>umtx_unlock\<close>: in a release build the null handle of
  caller variable 0 is still null after the call and nothing else has changed, although an
  initialization of it would have installed block 2. It also fails for \<^verbatim>\<open>umtx_lock\<close>
  where the emergency initialization cannot construct the lock: at program start with an
  allocator that refuses the first request, \<^verbatim>\<open>umtx_init\<close> leaves the global handle
  null and \<^verbatim>\<open>umtx_lock\<close> passes it to \<^verbatim>\<open>pthread_mutex_lock\<close>.
\<close>

theorem umtx_unlock_uninitialized_counterexample:
  "caller_mutexes ready 0 = NULL \<and>
   umtx_unlock posix_release ready (Some (caller_var 0)) = Inr ready \<and>
   handle_after (umtx_unlock posix_release ready (Some (caller_var 0))) 0 = Some NULL \<and>
   handle_after (umtx_init posix_release id ready (Some (caller_var 0))) 0 = Some (Block 2) \<and>
   gGlobalMutex (pristine [False] (0::nat)) = NULL \<and>
   umtx_init posix_release id (pristine [False] 0) None = Inr half \<and>
   gGlobalMutex half = NULL \<and>
   umtx_lock posix_release id (pristine [False] 0) None = Inl Crash"
  by (auto simp add: run_simps handle_after_def pristine_def ready_def half_def
      posix_release_def)

subsection \<open>C5: umtx_destroy\<close>

text \<open>
  C5. \<^verbatim>\<open>umtx_destroy\<close> on a handle that is null changes nothing; after any call the
  handle is null; and a second call on the same handle leaves the state of the first.
\<close>

theorem umtx_destroy_idempotent:
  "mutex = (case mutex0 of None \<Rightarrow> gGlobalMutex_var | Some m \<Rightarrow> m) \<Longrightarrow>
     (deref s mutex = NULL \<longrightarrow> umtx_destroy cfg s mutex0 = s) \<and>
     deref (umtx_destroy cfg s mutex0) mutex = NULL \<and>
     umtx_destroy cfg (umtx_destroy cfg s mutex0) mutex0 = umtx_destroy cfg s mutex0"
  by (simp add: umtx_destroy_null umtx_destroy_resets)

theorem umtx_destroy_idempotent_witness:
  "deref (pristine [] (0::nat)) (caller_var 0) = NULL \<and>
   umtx_destroy posix_release (pristine [] (0::nat)) (Some (caller_var 0)) = pristine [] 0 \<and>
   gGlobalMutex ready = Block 0 \<and>
   gGlobalMutex (umtx_destroy posix_release ready None) = NULL \<and>
   gIncDecMutex (umtx_destroy posix_release ready None) = NULL \<and>
   blocks (heap (umtx_destroy posix_release ready None)) = {} \<and>
   umtx_destroy posix_release (umtx_destroy posix_release ready None) None
     = umtx_destroy posix_release ready None"
proof -
  have n: "deref (pristine [] (0::nat)) (caller_var 0) = NULL"
    by (simp add: pristine_def)
  from umtx_destroy_idempotent [of "caller_var 0" "Some (caller_var 0)" "pristine [] (0::nat)"
      posix_release] n
  have 1: "umtx_destroy posix_release (pristine [] (0::nat)) (Some (caller_var 0)) = pristine [] 0"
    by simp
  from umtx_destroy_idempotent [of gGlobalMutex_var None ready posix_release]
  have 2: "gGlobalMutex (umtx_destroy posix_release ready None) = NULL"
    "umtx_destroy posix_release (umtx_destroy posix_release ready None) None
       = umtx_destroy posix_release ready None"
    by simp_all
  have 3: "gGlobalMutex ready = Block 0"
    "gIncDecMutex (umtx_destroy posix_release ready None) = NULL"
    "blocks (heap (umtx_destroy posix_release ready None)) = {}"
    by (auto simp add: umtx_destroy_None umtx_destroy_Some uprv_free_def sys_def Let_def
        ready_def pristine_def posix_release_def)
  from n 1 2 3 show ?thesis by simp
qed

subsection \<open>C6: a missing callback\<close>

text \<open>
  C6, as amended. If the status holds no failure on entry and a required callback is null,
  \<^verbatim>\<open>u_setMutexFunctions\<close> and \<^verbatim>\<open>u_setAtomicIncDecFunctions\<close> set the status to
  \<^verbatim>\<open>U_ILLEGAL_ARGUMENT_ERROR\<close> and leave the whole state as it was.
\<close>

theorem null_callback_rejected:
  "\<not> U_FAILURE status \<Longrightarrow>
     (i = None \<or> d = None \<or> l = None \<or> u = None \<longrightarrow>
        u_setMutexFunctions s ctx i d l u status = (s, U_ILLEGAL_ARGUMENT_ERROR)) \<and>
     (ip = None \<or> dp = None \<longrightarrow>
        u_setAtomicIncDecFunctions cfg s ctx ip dp status = Inr (s, U_ILLEGAL_ARGUMENT_ERROR))"
  by (auto simp add: u_setMutexFunctions_def u_setAtomicIncDecFunctions_def)

theorem null_callback_rejected_witness:
  "\<not> U_FAILURE U_ZERO_ERROR \<and>
   u_setMutexFunctions stale (Foreign 1) (Some cb_init) (Some cb_mutex) None (Some cb_mutex)
       U_ZERO_ERROR
     = (stale, U_ILLEGAL_ARGUMENT_ERROR) \<and>
   u_setAtomicIncDecFunctions posix_debug stale (Foreign 1) (Some cb_inc) None U_ZERO_ERROR
     = Inr (stale, U_ILLEGAL_ARGUMENT_ERROR)"
  using null_callback_rejected [of U_ZERO_ERROR "Some cb_init" "Some cb_mutex" None "Some cb_mutex"
      stale "Foreign 1" "Some cb_inc" None posix_debug]
  by simp

text \<open>
  The claim as stated fails when the status already holds a failure: the call with null
  callbacks returns at lines 302-304 and 395-397 and the status is still
  \<^verbatim>\<open>U_INVALID_STATE_ERROR\<close>.
\<close>

theorem null_callback_counterexample:
  "u_setMutexFunctions (pristine [] (0::nat)) NULL None None None None U_INVALID_STATE_ERROR
     = (pristine [] 0, U_INVALID_STATE_ERROR) \<and>
   u_setAtomicIncDecFunctions posix_release (pristine [] (0::nat)) NULL None None
       U_INVALID_STATE_ERROR
     = Inr (pristine [] 0, U_INVALID_STATE_ERROR) \<and>
   U_INVALID_STATE_ERROR \<noteq> U_ILLEGAL_ARGUMENT_ERROR"
  by (simp add: u_setMutexFunctions_def u_setAtomicIncDecFunctions_def)

subsection \<open>C7: registration after the library has been used\<close>

text \<open>
  C7, as amended. If the status holds no failure on entry, every required callback is given
  and \<^verbatim>\<open>cmemory_inUse\<close> reports use, both registration functions set the status to
  \<^verbatim>\<open>U_INVALID_STATE_ERROR\<close> and leave the whole state as it was.
\<close>

theorem late_registration_rejected:
  "\<not> U_FAILURE status \<Longrightarrow> cmemory_inUse s \<Longrightarrow>
     (i \<noteq> None \<and> d \<noteq> None \<and> l \<noteq> None \<and> u \<noteq> None \<longrightarrow>
        u_setMutexFunctions s ctx i d l u status = (s, U_INVALID_STATE_ERROR)) \<and>
     (ip \<noteq> None \<and> dp \<noteq> None \<longrightarrow>
        u_setAtomicIncDecFunctions cfg s ctx ip dp status = Inr (s, U_INVALID_STATE_ERROR))"
  by (auto simp add: u_setMutexFunctions_def u_setAtomicIncDecFunctions_def)

theorem late_registration_rejected_witness:
  "\<not> U_FAILURE U_ZERO_ERROR \<and> cmemory_inUse busy \<and>
   u_setMutexFunctions busy (Foreign 1) (Some cb_init) (Some cb_mutex) (Some cb_mutex)
       (Some cb_mutex) U_ZERO_ERROR
     = (busy, U_INVALID_STATE_ERROR) \<and>
   u_setAtomicIncDecFunctions posix_debug busy (Foreign 1) (Some cb_inc) (Some cb_dec) U_ZERO_ERROR
     = Inr (busy, U_INVALID_STATE_ERROR)"
  using late_registration_rejected [of U_ZERO_ERROR busy "Some cb_init" "Some cb_mutex"
      "Some cb_mutex" "Some cb_mutex" "Foreign 1" "Some cb_inc" "Some cb_dec" posix_debug]
  by (simp add: cmemory_inUse_busy)

text \<open>
  The claim as stated fails when the status already holds a failure: the late call with all
  callbacks given returns with the status it came with, here \<^verbatim>\<open>U_OTHER_ERROR 7\<close>.
\<close>

theorem late_registration_counterexample:
  "cmemory_inUse busy \<and>
   u_setMutexFunctions busy NULL (Some cb_init) (Some cb_mutex) (Some cb_mutex) (Some cb_mutex)
       (U_OTHER_ERROR 7)
     = (busy, U_OTHER_ERROR 7) \<and>
   u_setAtomicIncDecFunctions posix_release busy NULL (Some cb_inc) (Some cb_dec) (U_OTHER_ERROR 7)
     = Inr (busy, U_OTHER_ERROR 7) \<and>
   U_OTHER_ERROR 7 \<noteq> U_INVALID_STATE_ERROR"
  by (simp add: u_setMutexFunctions_def u_setAtomicIncDecFunctions_def cmemory_inUse_busy)

subsection \<open>C8: initializing the global mutex\<close>




subsection \<open>C9: a construction that fails\<close>

text \<open>
  C9, as amended. \<^verbatim>\<open>umtx_raw_init\<close> returns a state and never an error. When the
  allocation of a native build returns null, the state is the one the allocator left and
  every handle has the value it had on entry, null where it was null. When a registered init
  callback is called, also one that reports failure, the handle holds whatever the callback
  stored, and is null only if the callback left it null.
\<close>

theorem umtx_raw_init_failure_swallowed:
  "(pMutexInitFn s = None \<and> ICU_USE_THREADS cfg \<and> (WIN32 cfg \<or> POSIX cfg) \<and>
      fst (uprv_malloc s) = NULL \<longrightarrow>
        umtx_raw_init cfg s mutex = snd (uprv_malloc s) \<and>
        (\<forall>v. deref (umtx_raw_init cfg s mutex) v = deref s v)) \<and>
   (pMutexInitFn s = Some f \<and>
      f (world s) (gMutexContext s) (deref s mutex) U_ZERO_ERROR = (w', v', status) \<longrightarrow>
        umtx_raw_init cfg s mutex = store (s\<lparr>world := w'\<rparr>) mutex v' \<and>
        deref (umtx_raw_init cfg s mutex) mutex = v')"
  by (auto simp add: umtx_raw_init_def case_prod_beta deref_store)

theorem umtx_raw_init_failure_swallowed_witness:
  "pMutexInitFn (pristine [False] (0::nat)) = None \<and>
   fst (uprv_malloc (pristine [False] (0::nat))) = NULL \<and>
   caller_mutexes (umtx_raw_init posix_release (pristine [False] (0::nat)) (caller_var 0)) 0
     = NULL \<and>
   pMutexInitFn refusing = Some failing_init \<and>
   U_FAILURE (snd (snd (failing_init (world refusing) (gMutexContext refusing)
                          (deref refusing (caller_var 0)) U_ZERO_ERROR))) \<and>
   caller_mutexes (umtx_raw_init posix_release refusing (caller_var 0)) 0 = NULL"
proof -
  have a: "pMutexInitFn (pristine [False] (0::nat)) = None"
    "fst (uprv_malloc (pristine [False] (0::nat))) = NULL"
    "ICU_USE_THREADS posix_release" "POSIX posix_release"
    "caller_mutexes (pristine [False] (0::nat)) 0 = NULL"
    by (simp_all add: pristine_def uprv_malloc_def posix_release_def)
  from umtx_raw_init_failure_swallowed [of "pristine [False] (0::nat)" posix_release "caller_var 0"] a
  have 1: "caller_mutexes (umtx_raw_init posix_release (pristine [False] (0::nat)) (caller_var 0)) 0
     = NULL"
    by (simp add: uprv_malloc_fields(1) [of _ "caller_var 0", simplified])
  have b: "pMutexInitFn refusing = Some failing_init"
    "failing_init (world refusing) (gMutexContext refusing) (deref refusing (caller_var 0))
       U_ZERO_ERROR = (0, NULL, U_OTHER_ERROR 7)"
    by (simp_all add: refusing_eq pristine_def failing_init_def)
  from umtx_raw_init_failure_swallowed [of refusing posix_release "caller_var 0" failing_init
      0 NULL "U_OTHER_ERROR 7"] b
  have 2: "caller_mutexes (umtx_raw_init posix_release refusing (caller_var 0)) 0 = NULL"
    by simp
  from a b 1 2 show ?thesis by simp
qed

text \<open>
  The claim as stated fails on the callback path: \<open>half_init\<close> stores a handle and then
  reports failure, and \<^verbatim>\<open>umtx_raw_init\<close> returns at line 171 with the handle, which was
  null, pointing to what the callback stored.
\<close>

theorem umtx_raw_init_callback_counterexample:
  "pMutexInitFn halfway = Some half_init \<and>
   caller_mutexes halfway 0 = NULL \<and>
   U_FAILURE (snd (snd (half_init (world halfway) (gMutexContext halfway)
                          (deref halfway (caller_var 0)) U_ZERO_ERROR))) \<and>
   caller_mutexes (umtx_raw_init posix_release halfway (caller_var 0)) 0 = Foreign 9"
  by (simp add: halfway_eq pristine_def half_init_def umtx_raw_init_def)

subsection \<open>C10: a status that holds a failure on entry\<close>

text \<open>
  C10. If the status holds a failure on entry, \<^verbatim>\<open>u_setMutexFunctions\<close> and
  \<^verbatim>\<open>u_setAtomicIncDecFunctions\<close> return the state and the status as they were, whatever
  the callbacks are and whether or not the library has been used.
\<close>

theorem registration_skipped_on_failure:
  "U_FAILURE status \<Longrightarrow>
     u_setMutexFunctions s ctx i d l u status = (s, status) \<and>
     u_setAtomicIncDecFunctions cfg s ctx ip dp status = Inr (s, status)"
  by (simp add: u_setMutexFunctions_def u_setAtomicIncDecFunctions_def)

theorem registration_skipped_on_failure_witness:
  "U_FAILURE U_INVALID_STATE_ERROR \<and> cmemory_inUse busy \<and>
   u_setMutexFunctions busy (Foreign 1) None None None None U_INVALID_STATE_ERROR
     = (busy, U_INVALID_STATE_ERROR) \<and>
   u_setAtomicIncDecFunctions posix_debug busy (Foreign 1) None None U_INVALID_STATE_ERROR
     = Inr (busy, U_INVALID_STATE_ERROR)"
  using registration_skipped_on_failure [of U_INVALID_STATE_ERROR busy "Foreign 1" None None None
      None posix_debug None None]
  by (simp add: cmemory_inUse_busy)

end
